theory Spec2Isabelle
  imports Complex_Main "HOL-Library.Word"
begin

section \<open>Frequency analyser (analyser.ts)\<close>

text \<open>
  The \<open>Analyser\<close> class keeps a reference to a byte array that the audio node fills in
  place. The claim about it is about aliasing, so typed arrays live in an explicit store:
  a map from addresses to byte lists, with a counter for the next fresh address.
\<close>

type_synonym addr = nat
type_synonym byte = "8 word"

record store =
  cells :: "addr \<rightharpoonup> byte list"
  fresh :: addr

text \<open>\<open>new Uint8Array(n)\<close>: a fresh array of \<open>n\<close> zero bytes; the result is its address.\<close>

definition new_Uint8Array :: "nat \<Rightarrow> store \<Rightarrow> addr \<times> store" where
  "new_Uint8Array n st =
     (fresh st, st\<lparr>cells := (cells st)(fresh st \<mapsto> replicate n 0), fresh := Suc (fresh st)\<rparr>)"

text \<open>
  The Web Audio \<open>AnalyserNode\<close>, with the four attributes the constructor sets.
  \<open>createAnalyser()\<close> returns a node with the defaults of the Web Audio API;
  \<open>frequencyBinCount\<close> is a read-only attribute, half of \<open>fftSize\<close>.
\<close>

record AnalyserNode =
  fftSize :: nat
  smoothingTimeConstant :: real
  minDecibels :: real
  maxDecibels :: real

definition createAnalyser :: AnalyserNode where
  "createAnalyser =
     \<lparr>fftSize = 2048, smoothingTimeConstant = 8 / 10, minDecibels = - 100, maxDecibels = - 30\<rparr>"

definition frequencyBinCount :: "AnalyserNode \<Rightarrow> nat" where
  "frequencyBinCount node = fftSize node div 2"

text \<open>
  \<open>getByteFrequencyData(array)\<close> writes the node's current frequency data \<open>fd\<close> (an input
  of the environment) into the array it is given: when the array is shorter the excess
  data is dropped, when it is longer the excess elements keep their values. The array is
  written in place, so its length never changes.
\<close>

definition getByteFrequencyData :: "byte list \<Rightarrow> byte list \<Rightarrow> byte list" where
  "getByteFrequencyData fd arr = take (length arr) fd @ drop (length fd) arr"

record Analyser =
  analyser :: AnalyserNode
  bufferLength :: nat
  dataArray :: addr

text \<open>
  The constructor. \<open>node.connect(this.analyser)\<close> changes the audio graph only and is left
  out; the field initialiser \<open>bufferLength = 0\<close> is overwritten before the constructor ends.
\<close>

definition Analyser_new :: "store \<Rightarrow> Analyser \<times> store" where
  "Analyser_new st =
     (let a0 = createAnalyser;
          a1 = a0\<lparr>fftSize := 256\<rparr>;
          a2 = a1\<lparr>smoothingTimeConstant := 6 / 10\<rparr>;
          a3 = a2\<lparr>minDecibels := - 90\<rparr>;
          a4 = a3\<lparr>maxDecibels := - 10\<rparr>;
          len = frequencyBinCount a4;
          (p, st') = new_Uint8Array len st
      in (\<lparr>analyser = a4, bufferLength = len, dataArray = p\<rparr>, st'))"

text \<open>
  \<open>update()\<close> passes the array reference to the node, which overwrites the array's
  contents; no field of the object is assigned. \<open>fd\<close> is the frequency data the node
  holds at that moment.
\<close>

definition update :: "byte list \<Rightarrow> Analyser \<times> store \<Rightarrow> Analyser \<times> store" where
  "update fd = (\<lambda>(this, st).
     (case cells st (dataArray this) of
        None \<Rightarrow> (this, st)
      | Some arr \<Rightarrow>
          (this, st\<lparr>cells := (cells st)(dataArray this \<mapsto> getByteFrequencyData fd arr)\<rparr>)))"

text \<open>The accessor \<open>get data()\<close> returns the reference itself, not a copy.\<close>

definition data :: "Analyser \<Rightarrow> addr" where
  "data this = dataArray this"

text \<open>Any number of \<open>update()\<close> calls, one per frame of frequency data.\<close>

definition updates :: "byte list list \<Rightarrow> Analyser \<times> store \<Rightarrow> Analyser \<times> store" where
  "updates fds p = foldl (\<lambda>q fd. update fd q) p fds"

text \<open>The length of the array an \<open>Analyser\<close> refers to, if the reference is live.\<close>

definition data_length :: "Analyser \<times> store \<Rightarrow> nat option" where
  "data_length = (\<lambda>(this, st). map_option length (cells st (data this)))"

section \<open>Live audio client (index.tsx): data model\<close>

text \<open>
  The custom element \<open>GdmLiveAudio\<close> is a single-threaded, event-driven object: every
  callback runs to completion, or up to its next \<open>await\<close>, as one turn. The embedding
  passes the object's state explicitly. Each handler is a function from state to state;
  an \<open>async\<close> method is cut at its \<open>await\<close>s into the segments that run as separate
  turns. Calls into the browser and into the remote session are recorded, in order, in
  a log of effects.

  Times on the output clock (\<open>AudioContext.currentTime\<close>, seconds) and buffer durations
  are real numbers: the rounding of IEEE doubles is not modelled. Text received from
  the service is a list of UTF-16 code units, as a JavaScript string is; status lines,
  voices and instructions are byte strings.
\<close>

type_synonym time = real
type_synonym handle = nat
type_synonym jsstring = "16 word list"
type_synonym pcm = "real list"

datatype session_state = Idle | Connecting | Connected | Error

datatype speakerTag = You | Gemini

record TranscriptionEntry =
  speaker :: speakerTag
  entryText :: jsstring

text \<open>
  A function call of a tool-call message. \<open>fc.id\<close> and \<open>fc.name\<close> are optional in the
  message type. \<open>fc_args\<close> is \<open>fc.args\<close> as far as the handler reads it: \<open>None\<close> when the
  call has no \<open>args\<close> object, otherwise the value of \<open>args.color\<close>, which may be
  \<open>undefined\<close> in its turn.
\<close>

record FunctionCall =
  fc_id :: "string option"
  fc_name :: "string option"
  fc_args :: "string option option"

text \<open>
  The parts of a \<open>LiveServerMessage\<close> that \<open>handleMessage\<close> reads. An object that is
  absent is \<open>None\<close>, a flag that is absent is \<open>False\<close>; all fields but \<open>toolCall\<close> are
  those of \<open>serverContent\<close>.
  \<^item> \<open>toolCall\<close>: the object may come without its \<open>functionCalls\<close> array.
  \<^item> \<open>modelTurn\<close>: the object may come without its \<open>parts\<close> array; a part is given by
    its \<open>inlineData.data\<close> (base64 audio), \<open>None\<close> when the part has no inline data.
  \<^item> \<open>inputTranscription\<close> and \<open>outputTranscription\<close>: the object may come without its
    \<open>text\<close>.
\<close>

datatype tool_call = FunctionCalls "FunctionCall list" | NoFunctionCalls

datatype model_turn = Parts "string option list" | NoParts

record LiveServerMessage =
  toolCall :: "tool_call option"
  modelTurn :: "model_turn option"
  inputTranscription :: "jsstring option option"
  outputTranscription :: "jsstring option option"
  turnComplete :: bool
  interrupted :: bool

text \<open>What is sent with \<open>session.sendRealtimeInput\<close>: a block of samples or a JPEG frame.\<close>

datatype payload = AudioBlob pcm | JpegFrame string

text \<open>
  A promise returned by \<open>initSession\<close>. Promises are numbered in the order of the calls;
  promise \<open>k\<close>, once fulfilled, holds session \<open>k\<close>.
\<close>

datatype promise = Pending | Fulfilled | Rejected

text \<open>
  A continuation waiting for a session promise: the callback of
  \<open>sessionPromise.then(...)\<close> in the capture and frame pipelines, the rest of
  \<open>handleMessage\<close> after \<open>await this.sessionPromise\<close> in the tool-call loop (the call being
  answered, the calls still to do, the message), and the rest of
  \<open>applySettingsAndResetSession\<close> after its \<open>await\<close>.
\<close>

datatype reaction =
    SendMedia payload
  | ToolResponse FunctionCall "FunctionCall list" LiveServerMessage
  | ApplySettings

text \<open>Calls into the browser and the remote service, as they are observed from outside.\<close>

datatype effect =
    Connect nat string string
  | SessionClose nat
  | SendRealtimeInput nat payload
  | SendToolResponse nat "string option" "string option" string
  | SetColor "string option"
  | SourceStart nat time time
  | SourceStop nat
  | GetUserMediaAudio
  | GetUserMediaVideo
  | GetDisplayMedia
  | StopTracks handle
  | DisconnectProcessor
  | DisconnectSource
  | ClearInterval nat
  | RecorderStart
  | RecorderStop
  | CloseMixContext
  | DownloadRecording "nat list"

datatype recorder_state = Inactive | Recording | Paused

text \<open>
  The fields of the element, in the order of the class, followed by the state of the
  runtime around it: \<open>decoding\<close> counts the \<open>playAudio\<close> calls suspended at
  \<open>await decodeAudioData(...)\<close>, \<open>nextSource\<close> names the next \<open>AudioBufferSourceNode\<close>
  to be created, \<open>promises\<close> and \<open>promiseCount\<close> hold the state of the session promises,
  \<open>reactions\<close> the continuations registered on them, and \<open>effects\<close> is the log.
  \<open>sources\<close> is a JavaScript \<open>Set\<close>: a list without duplicates, in insertion order.
  An object reference that is \<open>undefined\<close> or \<open>null\<close> is \<open>None\<close>.
\<close>

record app =
  isConversing :: bool
  isCameraOn :: bool
  isRecording :: bool
  sessionState :: session_state
  status :: string
  error :: string
  transcriptionHistory :: "TranscriptionEntry list"
  currentUserTranscription :: jsstring
  currentModelTranscription :: jsstring
  currentVoice :: string
  currentSystemInstruction :: string
  pendingVoice :: string
  pendingSystemInstruction :: string
  sessionPromise :: nat
  priv_currentInput :: jsstring
  priv_currentOutput :: jsstring
  nextStartTime :: time
  mediaStream :: "handle option"
  videoStream :: "handle option"
  sourceNode :: "unit option"
  scriptProcessorNode :: "unit option"
  sources :: "nat list"
  videoSrcObject :: "handle option"
  frameIntervalRef :: "nat option"
  mediaRecorder :: "recorder_state option"
  recordedChunks :: "nat list"
  screenStream :: "handle option"
  recordingMixContext :: "unit option"
  decoding :: nat
  nextSource :: nat
  promises :: "nat \<Rightarrow> promise"
  promiseCount :: nat
  reactions :: "(nat \<times> reaction) list"
  effects :: "effect list"

definition emit :: "effect \<Rightarrow> app \<Rightarrow> app" where
  "emit e s = s\<lparr>effects := effects s @ [e]\<rparr>"

text \<open>
  How a turn of an \<open>async\<close> method ends, with the state it leaves: the method has
  returned, an exception has left it (its promise is rejected; nobody handles the
  rejection, so the statements after the throw are simply not run), or it is suspended
  at an \<open>await\<close> on a pending promise.
\<close>

datatype outcome = Returned app | Threw app | Suspended app

fun state_of :: "outcome \<Rightarrow> app" where
  "state_of (Returned s) = s"
| "state_of (Threw s) = s"
| "state_of (Suspended s) = s"

section \<open>Status line\<close>

definition updateStatus :: "string \<Rightarrow> app \<Rightarrow> app" where
  "updateStatus msg s = s\<lparr>status := msg, error := ''''\<rparr>"

definition updateError :: "string \<Rightarrow> app \<Rightarrow> app" where
  "updateError msg s = s\<lparr>error := msg, status := ''''\<rparr>"

section \<open>Stopping the pipelines\<close>

text \<open>
  \<open>stopRecording\<close>. \<open>MediaRecorder.stop()\<close> makes the recorder inactive; its \<open>onstop\<close>
  handler runs as a later turn.
\<close>

definition stopRecording :: "app \<Rightarrow> app" where
  "stopRecording s =
     (let s1 = (case mediaRecorder s of
                  None \<Rightarrow> s
                | Some r \<Rightarrow>
                    if r \<noteq> Inactive
                    then updateStatus ''Recording stopped. Download will start shortly.''
                           (emit RecorderStop (s\<lparr>mediaRecorder := Some Inactive\<rparr>))
                    else s);
          s2 = (case screenStream s1 of
                  None \<Rightarrow> s1
                | Some scr \<Rightarrow> (emit (StopTracks scr) s1)\<lparr>screenStream := None\<rparr>);
          s3 = (case recordingMixContext s2 of
                  None \<Rightarrow> s2
                | Some _ \<Rightarrow> (emit CloseMixContext s2)\<lparr>recordingMixContext := None\<rparr>)
      in s3\<lparr>isRecording := False\<rparr>)"

definition stopConversation :: "app \<Rightarrow> app" where
  "stopConversation s =
     (let s1 = stopRecording s;
          s2 = (if isConversing s1
                then updateStatus ''Conversation stopped.'' (s1\<lparr>isConversing := False\<rparr>)
                else s1);
          s3 = (case scriptProcessorNode s2 of
                  None \<Rightarrow> s2
                | Some _ \<Rightarrow> (emit DisconnectProcessor s2)\<lparr>scriptProcessorNode := None\<rparr>);
          s4 = (case sourceNode s3 of
                  None \<Rightarrow> s3
                | Some _ \<Rightarrow> (emit DisconnectSource s3)\<lparr>sourceNode := None\<rparr>);
          s5 = (case mediaStream s4 of
                  None \<Rightarrow> s4
                | Some m \<Rightarrow> (emit (StopTracks m) s4)\<lparr>mediaStream := None\<rparr>)
      in s5)"

definition stopCamera :: "app \<Rightarrow> app" where
  "stopCamera s =
     (if \<not> isCameraOn s then s
      else
        let s1 = s\<lparr>isCameraOn := False\<rparr>;
            s2 = (case videoStream s1 of
                    None \<Rightarrow> s1
                  | Some v \<Rightarrow> (emit (StopTracks v) s1)\<lparr>videoStream := None\<rparr>);
            s3 = (case frameIntervalRef s2 of
                    None \<Rightarrow> s2
                  | Some t \<Rightarrow>
                      if t \<noteq> 0 then (emit (ClearInterval t) s2)\<lparr>frameIntervalRef := None\<rparr>
                      else s2)
        in s3\<lparr>videoSrcObject := None\<rparr>)"

section \<open>Playback scheduler\<close>

text \<open>
  \<open>playAudio\<close> is \<open>async\<close> with one \<open>await\<close>. The first segment clamps the cursor to the
  output clock \<open>now\<close> and starts decoding; it runs inside the caller's turn. The second
  segment runs as a later turn, when the decoded buffer is there: its duration is an
  input, since \<open>decode\<close> and \<open>decodeAudioData\<close> belong to a module outside this
  development. A new source is named by the counter \<open>nextSource\<close>.
\<close>

definition playAudio_begin :: "time \<Rightarrow> app \<Rightarrow> app" where
  "playAudio_begin now s =
     s\<lparr>nextStartTime := max (nextStartTime s) now, decoding := Suc (decoding s)\<rparr>"

definition set_add :: "nat \<Rightarrow> nat list \<Rightarrow> nat list" where
  "set_add x xs = (if x \<in> set xs then xs else xs @ [x])"

definition playAudio_resume :: "time \<Rightarrow> app \<Rightarrow> app" where
  "playAudio_resume duration s =
     (if decoding s = 0 then s
      else
        let source = nextSource s;
            s1 = s\<lparr>decoding := decoding s - 1, nextSource := Suc source\<rparr>;
            s2 = emit (SourceStart source (nextStartTime s1) duration) s1;
            s3 = s2\<lparr>nextStartTime := nextStartTime s2 + duration\<rparr>
        in s3\<lparr>sources := set_add source (sources s3)\<rparr>)"

text \<open>
  A decode that throws or rejects ends the call after the clamp: nothing is started.
\<close>

definition playAudio_abort :: "app \<Rightarrow> app" where
  "playAudio_abort s = s\<lparr>decoding := decoding s - 1\<rparr>"

text \<open>The whole call, when no other handler runs while it decodes.\<close>

definition playAudio :: "time \<Rightarrow> time \<Rightarrow> app \<Rightarrow> app" where
  "playAudio now duration s = playAudio_resume duration (playAudio_begin now s)"

text \<open>The \<open>onended\<close> callback of a source.\<close>

definition source_onended :: "nat \<Rightarrow> app \<Rightarrow> app" where
  "source_onended source s = s\<lparr>sources := removeAll source (sources s)\<rparr>"

text \<open>
  The sources started so far, oldest first, read off the log: name, start time and
  buffer duration of every \<open>source.start(...)\<close>.
\<close>

fun started :: "effect list \<Rightarrow> (nat \<times> time \<times> time) list" where
  "started [] = []"
| "started (SourceStart src t d # es) = (src, t, d) # started es"
| "started (_ # es) = started es"

definition start_times :: "app \<Rightarrow> time list" where
  "start_times s = map (\<lambda>(src, t, d). t) (started (effects s))"

text \<open>
  A sequence of chunks enqueued one after the other with no other message in between;
  each chunk is given as the clock reading at its call and the duration of its buffer.
\<close>

fun enqueue_all :: "(time \<times> time) list \<Rightarrow> app \<Rightarrow> app" where
  "enqueue_all [] s = s"
| "enqueue_all ((now, d) # cs) s = enqueue_all cs (playAudio now d s)"

text \<open>The start times given to the chunks of such a sequence.\<close>

definition chunk_starts :: "(time \<times> time) list \<Rightarrow> app \<Rightarrow> time list" where
  "chunk_starts cs s = drop (length (start_times s)) (start_times (enqueue_all cs s))"

section \<open>Inbound messages\<close>

text \<open>
  \<open>String.prototype.trim\<close> removes white space and line terminators at both ends; a
  string is truthy when it is not empty.
\<close>

definition isWhiteSpace :: "16 word \<Rightarrow> bool" where
  "isWhiteSpace c \<longleftrightarrow>
     c = 0x9 \<or> c = 0xA \<or> c = 0xB \<or> c = 0xC \<or> c = 0xD \<or> c = 0x20 \<or> c = 0xA0
     \<or> c = 0x1680 \<or> (0x2000 \<le> c \<and> c \<le> 0x200A) \<or> c = 0x2028 \<or> c = 0x2029
     \<or> c = 0x202F \<or> c = 0x205F \<or> c = 0x3000 \<or> c = 0xFEFF"

definition trim :: "jsstring \<Rightarrow> jsstring" where
  "trim t = rev (dropWhile isWhiteSpace (rev (dropWhile isWhiteSpace t)))"

definition truthy :: "jsstring \<Rightarrow> bool" where
  "truthy t \<longleftrightarrow> t \<noteq> []"

text \<open>
  \<open>message.serverContent?.modelTurn?.parts[0]?.inlineData\<close>, then \<open>audio?.data\<close>: there is
  no \<open>?.\<close> between \<open>parts\<close> and \<open>[0]\<close>, so a model turn without \<open>parts\<close> makes the index
  expression throw a \<open>TypeError\<close>. Otherwise the result is the data of the first part,
  if there is one and it has inline data.
\<close>

definition first_audio :: "model_turn option \<Rightarrow> string option" where
  "first_audio mt = (case mt of Some (Parts (p # ps)) \<Rightarrow> p | _ \<Rightarrow> None)"

text \<open>
  \<open>+= transcription.text\<close>: a transcription object without \<open>text\<close> appends the nine
  characters of \<open>undefined\<close>.
\<close>

definition undefined_text :: jsstring where
  "undefined_text = [0x75, 0x6E, 0x64, 0x65, 0x66, 0x69, 0x6E, 0x65, 0x64]"

definition transcription_text :: "jsstring option \<Rightarrow> jsstring" where
  "transcription_text t = (case t of None \<Rightarrow> undefined_text | Some x \<Rightarrow> x)"

text \<open>
  The part of \<open>handleMessage\<close> after the tool-call loop: audio, partial transcriptions,
  turn completion, interruption, in this order and in one turn. When reading the audio
  throws, none of the later steps runs. \<open>playAudio\<close> is called without \<open>await\<close>, so only
  its first segment runs here.
\<close>

definition handleMessage_content :: "LiveServerMessage \<Rightarrow> time \<Rightarrow> app \<Rightarrow> outcome" where
  "handleMessage_content m now s =
     (if modelTurn m = Some NoParts then Threw s
      else
        let s1 = (case first_audio (modelTurn m) of
                    None \<Rightarrow> s
                  | Some d \<Rightarrow> if d \<noteq> [] then playAudio_begin now s else s);
            s2 = (case inputTranscription m of
                    None \<Rightarrow> s1
                  | Some t \<Rightarrow>
                      s1\<lparr>priv_currentInput := priv_currentInput s1 @ transcription_text t,
                         currentUserTranscription := priv_currentInput s1 @ transcription_text t\<rparr>);
            s3 = (case outputTranscription m of
                    None \<Rightarrow> s2
                  | Some t \<Rightarrow>
                      s2\<lparr>priv_currentOutput := priv_currentOutput s2 @ transcription_text t,
                         currentModelTranscription := priv_currentOutput s2 @ transcription_text t\<rparr>);
            s4 = (if turnComplete m then
                    let history = transcriptionHistory s3;
                        history1 = (if truthy (trim (priv_currentInput s3))
                                    then history @ [\<lparr>speaker = You, entryText = priv_currentInput s3\<rparr>]
                                    else history);
                        history2 = (if truthy (trim (priv_currentOutput s3))
                                    then history1 @ [\<lparr>speaker = Gemini, entryText = priv_currentOutput s3\<rparr>]
                                    else history1)
                    in s3\<lparr>transcriptionHistory := history2,
                          priv_currentInput := [],
                          priv_currentOutput := [],
                          currentUserTranscription := [],
                          currentModelTranscription := []\<rparr>
                  else s3);
            s5 = (if interrupted m then
                    s4\<lparr>effects := effects s4 @ map SourceStop (sources s4),
                       sources := [],
                       nextStartTime := 0\<rparr>
                  else s4)
        in Returned s5)"

text \<open>
  The tool-call loop. For a call of the known function \<open>fc.args.color\<close> is read, which
  throws when the call has no \<open>args\<close>; the colour is set, then the method awaits
  \<open>this.sessionPromise\<close>: when that promise is fulfilled the loop goes on in the same
  chain of microtasks; when it is pending the rest of the method waits as a reaction on
  it; when it is rejected the \<open>await\<close> throws. A colour that is \<open>undefined\<close> is passed on
  as it is and printed as \<open>undefined\<close> in the response.
\<close>

definition color_text :: "FunctionCall \<Rightarrow> string" where
  "color_text fc = (case fc_args fc of Some (Some c) \<Rightarrow> c | _ \<Rightarrow> ''undefined'')"

definition sendToolResponse :: "nat \<Rightarrow> FunctionCall \<Rightarrow> app \<Rightarrow> app" where
  "sendToolResponse k fc s =
     emit (SendToolResponse k (fc_id fc) (fc_name fc) (''Color changed to '' @ color_text fc)) s"

fun toolCalls :: "FunctionCall list \<Rightarrow> LiveServerMessage \<Rightarrow> time \<Rightarrow> app \<Rightarrow> outcome" where
  "toolCalls [] m now s = handleMessage_content m now s"
| "toolCalls (fc # fcs) m now s =
     (if fc_name fc = Some ''change_visualizer_color'' then
        (case fc_args fc of
           None \<Rightarrow> Threw s
         | Some color \<Rightarrow>
             let s1 = emit (SetColor color) s;
                 k = sessionPromise s1
             in (case promises s1 k of
                   Fulfilled \<Rightarrow> toolCalls fcs m now (sendToolResponse k fc s1)
                 | Pending \<Rightarrow>
                     Suspended (s1\<lparr>reactions := reactions s1 @ [(k, ToolResponse fc fcs m)]\<rparr>)
                 | Rejected \<Rightarrow> Threw s1))
      else toolCalls fcs m now s)"

text \<open>
  The method: \<open>for (const fc of message.toolCall.functionCalls)\<close> throws when the
  tool-call object has no \<open>functionCalls\<close>.
\<close>

definition handleMessage :: "LiveServerMessage \<Rightarrow> time \<Rightarrow> app \<Rightarrow> outcome" where
  "handleMessage m now s =
     (case toolCall m of
        None \<Rightarrow> handleMessage_content m now s
      | Some NoFunctionCalls \<Rightarrow> Threw s
      | Some (FunctionCalls fcs) \<Rightarrow> toolCalls fcs m now s)"

section \<open>Session lifecycle\<close>

text \<open>
  \<open>initSession\<close> up to its \<open>await\<close>: the state becomes \<open>connecting\<close> and the connection is
  requested. The result is the number of the promise the caller stores.
\<close>

definition initSession :: "string \<Rightarrow> string \<Rightarrow> app \<Rightarrow> nat \<times> app" where
  "initSession voiceName systemInstruction s =
     (let k = promiseCount s;
          s1 = s\<lparr>sessionState := Connecting\<rparr>;
          s2 = updateStatus ''Connecting to Gemini...'' s1;
          s3 = emit (Connect k voiceName systemInstruction) s2
      in (k, s3\<lparr>promises := (promises s3)(k := Pending), promiseCount := Suc k\<rparr>))"

text \<open>
  The callbacks given to \<open>connect\<close> in the call for promise \<open>k\<close>. They close over
  \<open>this\<close> only: none of them looks at the session it belongs to, so \<open>k\<close> is not used
  on the right-hand sides. \<open>onmessage\<close> drops the promise \<open>handleMessage\<close> returns: what
  remains of the call is the state it leaves.
\<close>

definition onopen :: "nat \<Rightarrow> app \<Rightarrow> app" where
  "onopen k s =
     (let s1 = s\<lparr>sessionState := Connected\<rparr>;
          s2 = updateStatus ''Connected. Press record to talk.'' s1
      in s2\<lparr>error := ''''\<rparr>)"

definition onmessage :: "nat \<Rightarrow> LiveServerMessage \<Rightarrow> time \<Rightarrow> app \<Rightarrow> app" where
  "onmessage k m now s = state_of (handleMessage m now s)"

definition onerror :: "nat \<Rightarrow> string \<Rightarrow> app \<Rightarrow> app" where
  "onerror k msg s =
     (let s1 = s\<lparr>sessionState := Error\<rparr>;
          s2 = updateError (''Connection Error: '' @ msg) s1
      in stopConversation s2)"

definition onclose :: "nat \<Rightarrow> app \<Rightarrow> app" where
  "onclose k s =
     (let s1 = s\<lparr>sessionState := Idle\<rparr>;
          s2 = updateStatus ''Connection closed.'' s1
      in stopConversation s2)"

section \<open>Capture and frame pipelines\<close>

text \<open>
  \<open>this.sessionPromise.then((session) => session.sendRealtimeInput(...))\<close>: on a fulfilled
  promise the callback runs in the microtask that follows, on a pending one it waits,
  on a rejected one it never runs.
\<close>

definition then_send :: "payload \<Rightarrow> app \<Rightarrow> app" where
  "then_send p s =
     (let k = sessionPromise s
      in case promises s k of
           Fulfilled \<Rightarrow> emit (SendRealtimeInput k p) s
         | Pending \<Rightarrow> s\<lparr>reactions := reactions s @ [(k, SendMedia p)]\<rparr>
         | Rejected \<Rightarrow> s)"

definition onaudioprocess :: "pcm \<Rightarrow> app \<Rightarrow> app" where
  "onaudioprocess pcmData s =
     (if \<not> isConversing s then s else then_send (AudioBlob pcmData) s)"

text \<open>
  \<open>startConversation\<close>: the guard, the segment after \<open>await inputAudioContext.resume()\<close>,
  and the two ways \<open>getUserMedia\<close> ends. The status line of the last step starts with a
  red circle, given here by the four bytes of its UTF-8 encoding.
\<close>

definition red_circle :: string where
  "red_circle = [CHR 0xF0, CHR 0x9F, CHR 0x94, CHR 0xB4]"

definition startConversation_guard :: "app \<Rightarrow> bool" where
  "startConversation_guard s \<longleftrightarrow> isConversing s \<or> sessionState s \<noteq> Connected"

definition startConversation_request :: "app \<Rightarrow> app" where
  "startConversation_request s =
     emit GetUserMediaAudio (updateStatus ''Requesting microphone access...'' s)"

definition startConversation_granted :: "handle \<Rightarrow> app \<Rightarrow> app" where
  "startConversation_granted m s =
     (let s1 = s\<lparr>mediaStream := Some m\<rparr>;
          s2 = updateStatus ''Microphone access granted.'' s1;
          s3 = s2\<lparr>sourceNode := Some ()\<rparr>;
          s4 = s3\<lparr>scriptProcessorNode := Some ()\<rparr>;
          s5 = s4\<lparr>isConversing := True\<rparr>
      in updateStatus (red_circle @ '' Listening...'') s5)"

definition startConversation_denied :: "string \<Rightarrow> app \<Rightarrow> app" where
  "startConversation_denied msg s =
     stopConversation (updateError (''Microphone Error: '' @ msg) s)"

text \<open>The whole call, when no other handler runs during its two \<open>await\<close>s.\<close>

definition startConversation :: "string + handle \<Rightarrow> app \<Rightarrow> app" where
  "startConversation outcome s =
     (if startConversation_guard s then s
      else case outcome of
             Inl msg \<Rightarrow> startConversation_denied msg (startConversation_request s)
           | Inr m \<Rightarrow> startConversation_granted m (startConversation_request s))"

text \<open>
  \<open>startCamera\<close>, with the ways it can end: \<open>getUserMedia\<close> rejects, \<open>videoElement.play()\<close>
  rejects, or the timer \<open>t\<close> is set. The timer callback submits a frame when the camera
  flag is set and the canvas yields a blob.
\<close>

datatype camera_outcome = CameraDenied string | PlayFailed handle string | CameraStarted handle nat

definition startCamera :: "camera_outcome \<Rightarrow> app \<Rightarrow> app" where
  "startCamera outcome s =
     (if isCameraOn s then s
      else
        let s0 = emit GetUserMediaVideo s
        in case outcome of
             CameraDenied msg \<Rightarrow>
               (updateError (''Camera error: '' @ msg) s0)\<lparr>isCameraOn := False\<rparr>
           | PlayFailed v msg \<Rightarrow>
               (updateError (''Camera error: '' @ msg)
                  (s0\<lparr>videoStream := Some v, videoSrcObject := Some v\<rparr>))\<lparr>isCameraOn := False\<rparr>
           | CameraStarted v t \<Rightarrow>
               s0\<lparr>videoStream := Some v, videoSrcObject := Some v, isCameraOn := True,
                  frameIntervalRef := Some t\<rparr>)"

text \<open>
  The segments of \<open>startCamera\<close> one by one, as they run in separate turns: up to
  \<open>await getUserMedia\<close>, from there to \<open>await videoElement.play()\<close>, the rest, and the
  \<open>catch\<close> block.
\<close>

definition startCamera_request :: "app \<Rightarrow> app" where
  "startCamera_request s = (if isCameraOn s then s else emit GetUserMediaVideo s)"

definition startCamera_stream :: "handle \<Rightarrow> app \<Rightarrow> app" where
  "startCamera_stream v s = s\<lparr>videoStream := Some v, videoSrcObject := Some v\<rparr>"

definition startCamera_playing :: "nat \<Rightarrow> app \<Rightarrow> app" where
  "startCamera_playing t s = s\<lparr>isCameraOn := True, frameIntervalRef := Some t\<rparr>"

definition startCamera_catch :: "string \<Rightarrow> app \<Rightarrow> app" where
  "startCamera_catch msg s = (updateError (''Camera error: '' @ msg) s)\<lparr>isCameraOn := False\<rparr>"

definition frameTick :: "string option \<Rightarrow> app \<Rightarrow> app" where
  "frameTick blob s =
     (if \<not> isCameraOn s then s
      else case blob of
             None \<Rightarrow> s
           | Some base64Data \<Rightarrow> then_send (JpegFrame base64Data) s)"

section \<open>Settings\<close>

definition handleVoiceChange :: "string \<Rightarrow> app \<Rightarrow> app" where
  "handleVoiceChange v s = s\<lparr>pendingVoice := v\<rparr>"

definition handleSystemInstructionChange :: "string \<Rightarrow> app \<Rightarrow> app" where
  "handleSystemInstructionChange v s = s\<lparr>pendingSystemInstruction := v\<rparr>"

text \<open>
  \<open>applySettingsAndResetSession\<close> after \<open>await this.sessionPromise\<close> has given session \<open>k\<close>.
\<close>

definition applySettings_resume :: "nat \<Rightarrow> app \<Rightarrow> app" where
  "applySettings_resume k s =
     (let s1 = emit (SessionClose k) s;
          s2 = s1\<lparr>currentVoice := pendingVoice s1\<rparr>;
          s3 = s2\<lparr>currentSystemInstruction := pendingSystemInstruction s2\<rparr>;
          s4 = s3\<lparr>transcriptionHistory := []\<rparr>;
          s5 = updateStatus ''Settings applied. Reconnecting...'' s4;
          (k', s6) = initSession (currentVoice s5) (currentSystemInstruction s5) s5
      in s6\<lparr>sessionPromise := k'\<rparr>)"

text \<open>
  The method itself. \<open>confirmed\<close> is the answer to \<open>window.confirm\<close>, which is asked only
  while a conversation is active. The \<open>await\<close> behaves as in the tool-call loop.
\<close>

definition applySettingsAndResetSession :: "bool \<Rightarrow> app \<Rightarrow> app" where
  "applySettingsAndResetSession confirmed s =
     (if isConversing s \<and> \<not> confirmed then s
      else
        let s1 = stopConversation s;
            s2 = stopCamera s1;
            k = sessionPromise s2
        in case promises s2 k of
             Fulfilled \<Rightarrow> applySettings_resume k s2
           | Pending \<Rightarrow> s2\<lparr>reactions := reactions s2 @ [(k, ApplySettings)]\<rparr>
           | Rejected \<Rightarrow> s2)"

section \<open>Settling a session promise\<close>

text \<open>A continuation that waited for promise \<open>k\<close>, run with session \<open>k\<close>.\<close>

definition run_reaction :: "time \<Rightarrow> nat \<Rightarrow> app \<Rightarrow> reaction \<Rightarrow> app" where
  "run_reaction now k s r =
     (case r of
        SendMedia p \<Rightarrow> emit (SendRealtimeInput k p) s
      | ToolResponse fc fcs m \<Rightarrow> state_of (toolCalls fcs m now (sendToolResponse k fc s))
      | ApplySettings \<Rightarrow> applySettings_resume k s)"

text \<open>
  \<open>initSession\<close> after its \<open>await\<close>. When \<open>connect\<close> resolves the method returns the
  session, promise \<open>k\<close> is fulfilled and the continuations waiting for it run in the
  order they were registered. When \<open>connect\<close> rejects the \<open>catch\<close> block runs and the
  promise is rejected; what waited for it never runs.
\<close>

definition initSession_connected :: "nat \<Rightarrow> time \<Rightarrow> app \<Rightarrow> app" where
  "initSession_connected k now s =
     (if k < promiseCount s \<and> promises s k = Pending then
        let s1 = s\<lparr>promises := (promises s)(k := Fulfilled),
                   reactions := filter (\<lambda>(p, r). p \<noteq> k) (reactions s)\<rparr>
        in foldl (run_reaction now k) s1
             (map snd (filter (\<lambda>(p, r). p = k) (reactions s)))
      else s)"

definition initSession_failed :: "nat \<Rightarrow> string \<Rightarrow> app \<Rightarrow> app" where
  "initSession_failed k msg s =
     (if k < promiseCount s \<and> promises s k = Pending then
        let s1 = s\<lparr>sessionState := Error\<rparr>;
            s2 = updateError msg s1
        in s2\<lparr>promises := (promises s2)(k := Rejected),
              reactions := filter (\<lambda>(p, r). p \<noteq> k) (reactions s2)\<rparr>
      else s)"

section \<open>Recording mixer\<close>

text \<open>
  \<open>startRecording\<close>. The outcome of \<open>getDisplayMedia\<close> is an input: an error message or
  the screen stream. The segments before and after that \<open>await\<close> are run together.
  Building the mixing graph throws when there is no microphone stream to mix, which
  ends in the same \<open>catch\<close> block; the text of that error is the browser's.
\<close>

definition startRecording_catch :: "string \<Rightarrow> app \<Rightarrow> app" where
  "startRecording_catch msg s =
     (updateError (''Screen capture failed: '' @ msg) s)\<lparr>isRecording := False\<rparr>"

definition startRecording :: "string + handle \<Rightarrow> app \<Rightarrow> app" where
  "startRecording outcome s =
     (if \<not> isConversing s then updateError ''Start a conversation before recording.'' s
      else
        let s1 = updateStatus ''Requesting screen capture permission...'' s;
            s2 = emit GetDisplayMedia s1
        in case outcome of
             Inl msg \<Rightarrow> startRecording_catch msg s2
           | Inr scr \<Rightarrow>
               let s3 = s2\<lparr>screenStream := Some scr\<rparr>;
                   s4 = s3\<lparr>recordedChunks := []\<rparr>;
                   s5 = s4\<lparr>recordingMixContext := Some ()\<rparr>
               in (case mediaStream s5 of
                     None \<Rightarrow> startRecording_catch ''TypeError'' s5
                   | Some _ \<Rightarrow>
                       let s6 = s5\<lparr>mediaRecorder := Some Recording\<rparr>;
                           s7 = emit RecorderStart s6;
                           s8 = s7\<lparr>isRecording := True\<rparr>
                       in updateStatus ''Recording session...'' s8))"

text \<open>
  The segments of \<open>startRecording\<close> one by one: up to \<open>await getDisplayMedia\<close>, and the
  two ways it goes on in a later turn.
\<close>

definition startRecording_request :: "app \<Rightarrow> app" where
  "startRecording_request s =
     (if \<not> isConversing s then updateError ''Start a conversation before recording.'' s
      else emit GetDisplayMedia (updateStatus ''Requesting screen capture permission...'' s))"

definition startRecording_granted :: "handle \<Rightarrow> app \<Rightarrow> app" where
  "startRecording_granted scr s =
     (let s3 = s\<lparr>screenStream := Some scr\<rparr>;
          s4 = s3\<lparr>recordedChunks := []\<rparr>;
          s5 = s4\<lparr>recordingMixContext := Some ()\<rparr>
      in (case mediaStream s5 of
            None \<Rightarrow> startRecording_catch ''TypeError'' s5
          | Some _ \<Rightarrow>
              let s6 = s5\<lparr>mediaRecorder := Some Recording\<rparr>;
                  s7 = emit RecorderStart s6;
                  s8 = s7\<lparr>isRecording := True\<rparr>
              in updateStatus ''Recording session...'' s8))"

text \<open>The recorder's callbacks: a chunk is kept when it is not empty; on stop the chunks
  are downloaded as one file and the buffer is cleared.\<close>

definition recorder_ondataavailable :: "nat \<Rightarrow> nat \<Rightarrow> app \<Rightarrow> app" where
  "recorder_ondataavailable chunk sz s =
     (if sz > 0 then s\<lparr>recordedChunks := recordedChunks s @ [chunk]\<rparr> else s)"

definition recorder_onstop :: "app \<Rightarrow> app" where
  "recorder_onstop s = (emit (DownloadRecording (recordedChunks s)) s)\<lparr>recordedChunks := []\<rparr>"

section \<open>Construction\<close>

text \<open>
  The field initialisers, then the constructor's call of \<open>initClient\<close>, which has no
  \<open>await\<close> and so runs to its end: the cursor is set to the output clock and the first
  session is requested.
\<close>

definition new_app :: app where
  "new_app =
     \<lparr>isConversing = False, isCameraOn = False, isRecording = False,
      sessionState = Idle, status = '''', error = '''',
      transcriptionHistory = [],
      currentUserTranscription = [], currentModelTranscription = [],
      currentVoice = ''Zephyr'',
      currentSystemInstruction = ''You are a helpful and creative AI assistant.'',
      pendingVoice = ''Zephyr'',
      pendingSystemInstruction = ''You are a helpful and creative AI assistant.'',
      sessionPromise = 0,
      priv_currentInput = [], priv_currentOutput = [],
      nextStartTime = 0,
      mediaStream = None, videoStream = None, sourceNode = None,
      scriptProcessorNode = None, sources = [], videoSrcObject = None,
      frameIntervalRef = None, mediaRecorder = None, recordedChunks = [],
      screenStream = None, recordingMixContext = None,
      decoding = 0, nextSource = 0,
      promises = (\<lambda>k. Pending), promiseCount = 0, reactions = [], effects = []\<rparr>"

definition initClient :: "time \<Rightarrow> app \<Rightarrow> app" where
  "initClient now s =
     (let s1 = s\<lparr>nextStartTime := now\<rparr>;
          (k, s2) = initSession (currentVoice s1) (currentSystemInstruction s1) s1
      in s2\<lparr>sessionPromise := k\<rparr>)"

text \<open>A run of handlers, one turn after the other, from a state.\<close>

definition run :: "app \<Rightarrow> (app \<Rightarrow> app) list \<Rightarrow> app" where
  "run s hs = foldl (\<lambda>s h. h s) s hs"

section \<open>Turns of the element\<close>

text \<open>
  Everything that can run as a turn, as an event: the callbacks of a session and the
  settling of its promise, the end of a decode and of a source, a captured block and
  a tick of the frame timer, and the user's actions. An \<open>async\<close> method appears with
  one event for each of its segments after the first \<open>await\<close>; the environment decides
  when, and whether, a segment runs. \<open>MicRequested\<close> is \<open>startConversation\<close> after
  \<open>await inputAudioContext.resume()\<close>, whose guard was passed in an earlier turn;
  \<open>MicGranted\<close> and \<open>MicDenied\<close> are the two ways its \<open>getUserMedia\<close> ends. The
  segments of \<open>startCamera\<close> and \<open>startRecording\<close> are events in the same way.
\<close>

datatype event =
    Opened nat
  | Message nat LiveServerMessage time
  | Errored nat string
  | Closed nat
  | ConnectResolved nat time
  | ConnectRejected nat string
  | DecodeResolved time
  | DecodeRejected
  | SourceEnded nat
  | AudioBlock pcm
  | TimerTick "string option"
  | MicRequested
  | MicGranted handle
  | MicDenied string
  | ConversationStopped
  | CameraRequested
  | CameraStream handle
  | CameraPlaying nat
  | CameraFailed string
  | CameraStopped
  | VoiceChanged string
  | InstructionChanged string
  | ApplyClicked bool
  | RecordingRequested
  | RecordingGranted handle
  | RecordingDenied string
  | RecordingStopped
  | RecorderData nat nat
  | RecorderEnded

fun fire :: "app \<Rightarrow> event \<Rightarrow> app" where
  "fire s (Opened k) = onopen k s"
| "fire s (Message k m now) = onmessage k m now s"
| "fire s (Errored k msg) = onerror k msg s"
| "fire s (Closed k) = onclose k s"
| "fire s (ConnectResolved k now) = initSession_connected k now s"
| "fire s (ConnectRejected k msg) = initSession_failed k msg s"
| "fire s (DecodeResolved d) = playAudio_resume d s"
| "fire s DecodeRejected = playAudio_abort s"
| "fire s (SourceEnded src) = source_onended src s"
| "fire s (AudioBlock pcmData) = onaudioprocess pcmData s"
| "fire s (TimerTick blob) = frameTick blob s"
| "fire s MicRequested = startConversation_request s"
| "fire s (MicGranted m) = startConversation_granted m s"
| "fire s (MicDenied msg) = startConversation_denied msg s"
| "fire s ConversationStopped = stopConversation s"
| "fire s CameraRequested = startCamera_request s"
| "fire s (CameraStream v) = startCamera_stream v s"
| "fire s (CameraPlaying t) = startCamera_playing t s"
| "fire s (CameraFailed msg) = startCamera_catch msg s"
| "fire s CameraStopped = stopCamera s"
| "fire s (VoiceChanged v) = handleVoiceChange v s"
| "fire s (InstructionChanged v) = handleSystemInstructionChange v s"
| "fire s (ApplyClicked confirmed) = applySettingsAndResetSession confirmed s"
| "fire s RecordingRequested = startRecording_request s"
| "fire s (RecordingGranted scr) = startRecording_granted scr s"
| "fire s (RecordingDenied msg) = startRecording_catch msg s"
| "fire s RecordingStopped = stopRecording s"
| "fire s (RecorderData chunk sz) = recorder_ondataavailable chunk sz s"
| "fire s RecorderEnded = recorder_onstop s"

text \<open>
  The one event that turns the conversation flag on, and the two events that set up
  capture or recording handles.
\<close>

fun is_grant :: "event \<Rightarrow> bool" where
  "is_grant (MicGranted m) = True"
| "is_grant _ = False"

fun sets_up :: "event \<Rightarrow> bool" where
  "sets_up (MicGranted m) = True"
| "sets_up (RecordingGranted scr) = True"
| "sets_up _ = False"

section \<open>Notions used in the properties\<close>

text \<open>
  The schedule a cursor value \<open>c\<close> gives to a sequence of chunks: each chunk starts at
  the later of the cursor and the clock reading of its call, and moves the cursor to
  its end.
\<close>

fun schedule :: "time \<Rightarrow> (time \<times> time) list \<Rightarrow> time list" where
  "schedule c [] = []"
| "schedule c ((now, d) # cs) = max c now # schedule (max c now + d) cs"

text \<open>
  The accumulator of one speaker after the partial transcription of a message has been
  added, and the entries a turn completion makes of it.
\<close>

definition appended :: "jsstring option option \<Rightarrow> jsstring \<Rightarrow> jsstring" where
  "appended part acc = (case part of None \<Rightarrow> acc | Some t \<Rightarrow> acc @ transcription_text t)"

definition flushed :: "speakerTag \<Rightarrow> jsstring \<Rightarrow> TranscriptionEntry list" where
  "flushed who acc = (if truthy (trim acc) then [\<lparr>speaker = who, entryText = acc\<rparr>] else [])"

text \<open>
  The state of the capture and recording fields before any conversation has started:
  the flags are off and every handle is still unset.
\<close>

definition never_started :: "app \<Rightarrow> bool" where
  "never_started s \<longleftrightarrow>
     \<not> isConversing s \<and> \<not> isRecording s \<and> mediaStream s = None \<and> sourceNode s = None
     \<and> scriptProcessorNode s = None \<and> mediaRecorder s = None \<and> screenStream s = None
     \<and> recordingMixContext s = None"

text \<open>
  The calls by which a state's recording, capture and frame pipelines are shut down:
  the recorder is stopped if it is not inactive, the tracks of the screen stream are
  stopped and the mixing context is closed; the processor and the source node are
  disconnected and the microphone tracks stopped; and, only while the camera flag is
  on, the camera tracks are stopped and the frame timer is cleared.
\<close>

definition recording_stop_calls :: "app \<Rightarrow> effect list" where
  "recording_stop_calls s =
     (case mediaRecorder s of
        None \<Rightarrow> []
      | Some r \<Rightarrow> if r \<noteq> Inactive then [RecorderStop] else [])
     @ (case screenStream s of None \<Rightarrow> [] | Some scr \<Rightarrow> [StopTracks scr])
     @ (case recordingMixContext s of None \<Rightarrow> [] | Some _ \<Rightarrow> [CloseMixContext])"

definition capture_stop_calls :: "app \<Rightarrow> effect list" where
  "capture_stop_calls s =
     (case scriptProcessorNode s of None \<Rightarrow> [] | Some _ \<Rightarrow> [DisconnectProcessor])
     @ (case sourceNode s of None \<Rightarrow> [] | Some _ \<Rightarrow> [DisconnectSource])
     @ (case mediaStream s of None \<Rightarrow> [] | Some m \<Rightarrow> [StopTracks m])"

definition camera_stop_calls :: "app \<Rightarrow> effect list" where
  "camera_stop_calls s =
     (if isCameraOn s then
        (case videoStream s of None \<Rightarrow> [] | Some v \<Rightarrow> [StopTracks v])
        @ (case frameIntervalRef s of
             None \<Rightarrow> []
           | Some t \<Rightarrow> if t \<noteq> 0 then [ClearInterval t] else [])
      else [])"

subsection \<open>Concrete runs\<close>

text \<open>The element after construction, once its first session is open.\<close>

definition connected_app :: app where
  "connected_app = run (initClient 0 new_app) [onopen 0, initSession_connected 0 0]"

text \<open>The same with a conversation going on, microphone stream 1.\<close>

definition conversing_app :: app where
  "conversing_app = run connected_app [startConversation (Inr 1)]"

text \<open>
  Messages: a chunk of audio, alone and together with the interruption flag, and the
  interruption flag alone.
\<close>

definition audio_only :: LiveServerMessage where
  "audio_only =
     \<lparr>toolCall = None, modelTurn = Some (Parts [Some ''AAAA'']), inputTranscription = None,
      outputTranscription = None, turnComplete = False, interrupted = False\<rparr>"

definition audio_interrupted :: LiveServerMessage where
  "audio_interrupted =
     \<lparr>toolCall = None, modelTurn = Some (Parts [Some ''AAAA'']), inputTranscription = None,
      outputTranscription = None, turnComplete = False, interrupted = True\<rparr>"

definition interrupted_only :: LiveServerMessage where
  "interrupted_only =
     \<lparr>toolCall = None, modelTurn = None, inputTranscription = None,
      outputTranscription = None, turnComplete = False, interrupted = True\<rparr>"

text \<open>
  A bare turn completion, a partial user transcription of one space, a turn
  completion that carries the user text \<open>hi\<close>, and a turn completion whose model turn
  has no parts.
\<close>

definition turn_complete :: LiveServerMessage where
  "turn_complete =
     \<lparr>toolCall = None, modelTurn = None, inputTranscription = None,
      outputTranscription = None, turnComplete = True, interrupted = False\<rparr>"

definition blank_input :: LiveServerMessage where
  "blank_input =
     \<lparr>toolCall = None, modelTurn = None, inputTranscription = Some (Some [0x20]),
      outputTranscription = None, turnComplete = False, interrupted = False\<rparr>"

definition late_turn :: LiveServerMessage where
  "late_turn =
     \<lparr>toolCall = None, modelTurn = None, inputTranscription = Some (Some [0x68, 0x69]),
      outputTranscription = None, turnComplete = True, interrupted = False\<rparr>"

definition turn_without_parts :: LiveServerMessage where
  "turn_without_parts =
     \<lparr>toolCall = None, modelTurn = Some NoParts, inputTranscription = Some (Some [0x68, 0x69]),
      outputTranscription = None, turnComplete = True, interrupted = False\<rparr>"

text \<open>
  A chunk is playing when a message arrives that carries both audio and the
  interruption flag; then the decoding of that message's audio ends.
\<close>

definition interrupted_while_decoding :: app where
  "interrupted_while_decoding =
     run connected_app
       [onmessage 0 audio_only 10, playAudio_resume (1 / 2),
        onmessage 0 audio_interrupted (41 / 4)]"

text \<open>
  A chunk of one minute, started at 10, is playing when an interruption is handled at
  clock time 40. The next chunk comes at clock time 50, in a message that carries the
  interruption flag as well.
\<close>

definition after_interruption :: app where
  "after_interruption =
     run connected_app
       [onmessage 0 audio_only 10, playAudio_resume 60, onmessage 0 interrupted_only 40]"

definition next_chunk_interrupted :: app where
  "next_chunk_interrupted = onmessage 0 audio_interrupted 50 after_interruption"

text \<open>The camera is started with stream 7 and timer 3, then the session closes.\<close>

definition closed_with_camera :: app where
  "closed_with_camera = run connected_app [startCamera (CameraStarted 7 3), onclose 0]"

text \<open>
  The voice is changed and applied while \<open>startConversation\<close> waits for the microphone:
  the conversation then starts on the new, still pending session promise.
\<close>

definition conversing_on_pending :: app where
  "conversing_on_pending =
     run connected_app
       [startConversation_request, handleVoiceChange ''Puck'',
        applySettingsAndResetSession False, startConversation_granted 1]"

text \<open>
  One block is captured there, and the conversation is stopped before the new session
  is there.
\<close>

definition stopped_before_connect :: app where
  "stopped_before_connect =
     run connected_app
       [startConversation_request, handleVoiceChange ''Puck'',
        applySettingsAndResetSession False, startConversation_granted 1,
        onaudioprocess [1 / 4], stopConversation]"

text \<open>
  Or the new connection fails while the conversation goes on, and the user picks
  another voice.
\<close>

definition conversing_on_rejected :: app where
  "conversing_on_rejected =
     run conversing_on_pending [initSession_failed 1 ''refused'', handleVoiceChange ''Kore'']"

text \<open>
  A conversation is requested, the session closes (which stops the conversation),
  then the microphone is granted and a block is captured.
\<close>

definition granted_after_close :: app where
  "granted_after_close =
     run connected_app
       [startConversation_request, onclose 0, startConversation_granted 1,
        onaudioprocess [1 / 4]]"

text \<open>The voice is changed to Puck during a conversation, and applied.\<close>

definition puck_pending :: app where
  "puck_pending = run conversing_app [handleVoiceChange ''Puck'']"

definition puck_applied :: app where
  "puck_applied = applySettingsAndResetSession True puck_pending"

text \<open>
  The turns of the scheduler while no interruption arrives: a chunk is enqueued (first
  segment of \<open>playAudio\<close>), a decoder is done with a buffer of some duration (second
  segment), a source has finished. Calls may overlap: several chunks can be in the
  decoder at a time.
\<close>

datatype playback_event = Enqueued time | Decoded time | Ended nat

fun playback_step :: "app \<Rightarrow> playback_event \<Rightarrow> app" where
  "playback_step s (Enqueued now) = playAudio_begin now s"
| "playback_step s (Decoded d) = playAudio_resume d s"
| "playback_step s (Ended src) = source_onended src s"

fun nonneg_duration :: "playback_event \<Rightarrow> bool" where
  "nonneg_duration (Decoded d) = (0 \<le> d)"
| "nonneg_duration _ = True"

text \<open>No source starts before a source started earlier has played to its end.\<close>

fun separated :: "(nat \<times> time \<times> time) list \<Rightarrow> bool" where
  "separated [] = True"
| "separated ((src, t, d) # xs) = (list_all (\<lambda>(src', t', d'). t + d \<le> t') xs \<and> separated xs)"

text \<open>Every source started so far ends at or before the cursor.\<close>

definition ends_before_cursor :: "app \<Rightarrow> bool" where
  "ends_before_cursor s \<longleftrightarrow>
     list_all (\<lambda>(src, t, d). t + d \<le> nextStartTime s) (started (effects s))"

section \<open>Auxiliary facts\<close>

lemmas handler_defs =
  run_def initClient_def new_app_def initSession_def updateStatus_def updateError_def emit_def
  onopen_def onmessage_def onerror_def onclose_def handleMessage_def handleMessage_content_def
  playAudio_def playAudio_begin_def playAudio_resume_def set_add_def
  stopConversation_def stopRecording_def stopCamera_def startCamera_def frameTick_def
  then_send_def onaudioprocess_def startConversation_def startConversation_guard_def
  startConversation_request_def startConversation_granted_def
  applySettingsAndResetSession_def applySettings_resume_def
  initSession_connected_def initSession_failed_def run_reaction_def handleVoiceChange_def
  truthy_def trim_def isWhiteSpace_def first_audio_def transcription_text_def Let_def

lemmas run_defs =
  connected_app_def conversing_app_def audio_only_def audio_interrupted_def
  interrupted_only_def turn_complete_def blank_input_def late_turn_def turn_without_parts_def
  interrupted_while_decoding_def after_interruption_def next_chunk_interrupted_def
  closed_with_camera_def conversing_on_pending_def stopped_before_connect_def
  conversing_on_rejected_def granted_after_close_def puck_pending_def puck_applied_def

subsection \<open>What the stop functions leave alone\<close>

lemma stopRecording_frame:
  "isConversing (stopRecording s) = isConversing s"
  "scriptProcessorNode (stopRecording s) = scriptProcessorNode s"
  "sourceNode (stopRecording s) = sourceNode s"
  "mediaStream (stopRecording s) = mediaStream s"
  "sessionPromise (stopRecording s) = sessionPromise s"
  "promises (stopRecording s) = promises s"
  "promiseCount (stopRecording s) = promiseCount s"
  "reactions (stopRecording s) = reactions s"
  "pendingVoice (stopRecording s) = pendingVoice s"
  "pendingSystemInstruction (stopRecording s) = pendingSystemInstruction s"
  "isCameraOn (stopRecording s) = isCameraOn s"
  "videoStream (stopRecording s) = videoStream s"
  "frameIntervalRef (stopRecording s) = frameIntervalRef s"
  "sessionState (stopRecording s) = sessionState s"
  by (simp_all add: stopRecording_def updateStatus_def emit_def Let_def split: option.splits)

lemma stopConversation_frame:
  "sessionPromise (stopConversation s) = sessionPromise s"
  "promises (stopConversation s) = promises s"
  "promiseCount (stopConversation s) = promiseCount s"
  "reactions (stopConversation s) = reactions s"
  "pendingVoice (stopConversation s) = pendingVoice s"
  "pendingSystemInstruction (stopConversation s) = pendingSystemInstruction s"
  "isCameraOn (stopConversation s) = isCameraOn s"
  "videoStream (stopConversation s) = videoStream s"
  "frameIntervalRef (stopConversation s) = frameIntervalRef s"
  "sessionState (stopConversation s) = sessionState s"
  by (simp_all add: stopConversation_def stopRecording_frame updateStatus_def emit_def Let_def
      split: option.splits)

lemma stopConversation_stops:
  "isConversing (stopConversation s) = False"
  "scriptProcessorNode (stopConversation s) = None"
  "sourceNode (stopConversation s) = None"
  "mediaStream (stopConversation s) = None"
  by (simp_all add: stopConversation_def stopRecording_frame updateStatus_def emit_def Let_def
      split: option.splits)

lemma stopCamera_frame:
  "sessionPromise (stopCamera s) = sessionPromise s"
  "promises (stopCamera s) = promises s"
  "promiseCount (stopCamera s) = promiseCount s"
  "reactions (stopCamera s) = reactions s"
  "pendingVoice (stopCamera s) = pendingVoice s"
  "pendingSystemInstruction (stopCamera s) = pendingSystemInstruction s"
  "isConversing (stopCamera s) = isConversing s"
  "scriptProcessorNode (stopCamera s) = scriptProcessorNode s"
  "sourceNode (stopCamera s) = sourceNode s"
  "mediaStream (stopCamera s) = mediaStream s"
  "isRecording (stopCamera s) = isRecording s"
  "mediaRecorder (stopCamera s) = mediaRecorder s"
  "screenStream (stopCamera s) = screenStream s"
  "recordingMixContext (stopCamera s) = recordingMixContext s"
  by (simp_all add: stopCamera_def emit_def Let_def split: option.splits)

lemma stopCamera_stops: "isCameraOn (stopCamera s) = False"
  by (simp add: stopCamera_def emit_def Let_def split: option.splits)

text \<open>The calls each stop function makes, in order.\<close>

lemma effects_stopRecording:
  "effects (stopRecording s) = effects s @ recording_stop_calls s"
  by (simp add: stopRecording_def recording_stop_calls_def updateStatus_def emit_def Let_def
      split: option.splits)

lemma effects_stopConversation:
  "effects (stopConversation s) = effects s @ recording_stop_calls s @ capture_stop_calls s"
  by (simp add: stopConversation_def capture_stop_calls_def effects_stopRecording
      stopRecording_frame updateStatus_def emit_def Let_def split: option.splits)

lemma effects_stopCamera: "effects (stopCamera s) = effects s @ camera_stop_calls s"
  by (simp add: stopCamera_def camera_stop_calls_def emit_def Let_def split: option.splits)

lemma camera_stop_calls_stopConversation:
  "camera_stop_calls (stopConversation s) = camera_stop_calls s"
  by (simp add: camera_stop_calls_def stopConversation_frame)

lemma stopRecording_noop:
  "mediaRecorder s = None \<Longrightarrow> screenStream s = None \<Longrightarrow> recordingMixContext s = None \<Longrightarrow>
   \<not> isRecording s \<Longrightarrow> stopRecording s = s"
  by (simp add: stopRecording_def)

lemma stopConversation_noop: "never_started s \<Longrightarrow> stopConversation s = s"
  by (simp add: never_started_def stopConversation_def stopRecording_noop)

subsection \<open>The session callbacks never touch the camera\<close>

lemma onclose_keeps_camera:
  "isCameraOn (onclose k s) = isCameraOn s"
  "videoStream (onclose k s) = videoStream s"
  "frameIntervalRef (onclose k s) = frameIntervalRef s"
  by (simp_all add: onclose_def stopConversation_frame updateStatus_def Let_def)

lemma onerror_keeps_camera:
  "isCameraOn (onerror k msg s) = isCameraOn s"
  "videoStream (onerror k msg s) = videoStream s"
  "frameIntervalRef (onerror k msg s) = frameIntervalRef s"
  by (simp_all add: onerror_def stopConversation_frame updateError_def Let_def)

subsection \<open>The scheduler\<close>

lemma started_append: "started (xs @ ys) = started xs @ started ys"
  by (induction xs rule: started.induct) simp_all

lemma effects_playAudio:
  "effects (playAudio now d s) =
     effects s @ [SourceStart (nextSource s) (max (nextStartTime s) now) d]"
  by (simp add: playAudio_def playAudio_begin_def playAudio_resume_def emit_def Let_def)

lemma nextStartTime_playAudio:
  "nextStartTime (playAudio now d s) = max (nextStartTime s) now + d"
  by (simp add: playAudio_def playAudio_begin_def playAudio_resume_def emit_def Let_def)

lemma start_times_playAudio:
  "start_times (playAudio now d s) = start_times s @ [max (nextStartTime s) now]"
  by (simp add: start_times_def effects_playAudio started_append)

lemma start_times_enqueue_all:
  "start_times (enqueue_all cs s) = start_times s @ schedule (nextStartTime s) cs"
  by (induction cs arbitrary: s)
    (auto simp: start_times_playAudio nextStartTime_playAudio)

lemma chunk_starts_schedule: "chunk_starts cs s = schedule (nextStartTime s) cs"
  by (simp add: chunk_starts_def start_times_enqueue_all)

lemma length_schedule: "length (schedule c cs) = length cs"
  by (induction cs arbitrary: c) auto

lemma schedule_step:
  "Suc n < length cs \<Longrightarrow>
   schedule c cs ! Suc n = max (schedule c cs ! n + snd (cs ! n)) (fst (cs ! Suc n))"
proof (induction cs arbitrary: c n)
  case Nil
  then show ?case by simp
next
  case (Cons a cs)
  obtain now d where a: "a = (now, d)" by (cases a)
  show ?case
  proof (cases n)
    case 0
    with Cons.prems obtain b cs' where cs: "cs = b # cs'" by (cases cs) auto
    obtain now' d' where b: "b = (now', d')" by (cases b)
    show ?thesis using 0 a cs b by simp
  next
    case (Suc k)
    with Cons.prems have "Suc k < length cs" by simp
    from Cons.IH[OF this] show ?thesis using Suc a by simp
  qed
qed

lemma nextStartTime_new: "nextStartTime (initClient now new_app) = now"
  by (simp add: initClient_def new_app_def initSession_def updateStatus_def emit_def Let_def)

text \<open>
  The scenario of three chunks of half a second that arrive at once, the cursor at
  clock time 10: they start at 10, 10.5 and 11.
\<close>

lemma three_chunks_back_to_back:
  "chunk_starts [(10, 1 / 2), (10, 1 / 2), (10, 1 / 2)] (initClient 10 new_app)
     = [10, 21 / 2, 11]"
  by (simp add: chunk_starts_schedule nextStartTime_new)

text \<open>
  A message whose model turn has no parts makes \<open>handleMessage_content\<close> throw before
  anything is changed; every other message is handled to the end.
\<close>

lemma content_throws:
  "modelTurn m = Some NoParts \<Longrightarrow> handleMessage_content m now s = Threw s"
  by (simp add: handleMessage_content_def)

lemma content_returns:
  "modelTurn m \<noteq> Some NoParts \<Longrightarrow>
   handleMessage_content m now s = Returned (state_of (handleMessage_content m now s))"
  by (simp add: handleMessage_content_def Let_def)

text \<open>An interruption empties the in-flight set and resets the cursor in its own turn.\<close>

lemma interrupt_clears:
  "interrupted m \<Longrightarrow> modelTurn m \<noteq> Some NoParts \<Longrightarrow>
   sources (state_of (handleMessage_content m now s)) = []
   \<and> nextStartTime (state_of (handleMessage_content m now s)) = 0
   \<and> nextSource (state_of (handleMessage_content m now s)) = nextSource s"
  by (simp add: handleMessage_content_def playAudio_begin_def Let_def split: option.splits)

text \<open>
  After an interruption a chunk whose call is not cut by a further interruption starts
  at the later of 0 and the clock reading of its call, whatever the cursor was before.
\<close>

lemma uncut_enqueue_after_interrupt:
  "interrupted m \<Longrightarrow> modelTurn m \<noteq> Some NoParts \<Longrightarrow>
   last (start_times (playAudio now d (state_of (handleMessage_content m now0 s)))) = max 0 now"
  by (simp add: start_times_playAudio interrupt_clears)

subsection \<open>White space\<close>

lemma dropWhile_keeps: "x \<in> set xs \<Longrightarrow> \<not> P x \<Longrightarrow> x \<in> set (dropWhile P xs)"
  by (induction xs) auto

lemma dropWhile_has:
  "(\<exists>x \<in> set (dropWhile P xs). \<not> P x) \<longleftrightarrow> (\<exists>x \<in> set xs. \<not> P x)"
  by (meson dropWhile_keeps set_dropWhileD)

lemma dropWhile_empty: "dropWhile P xs = [] \<longleftrightarrow> (\<forall>x \<in> set xs. P x)"
  by (induction xs) auto

text \<open>A text survives \<open>trim\<close> exactly when it has a character that is not white space.\<close>

lemma truthy_trim: "truthy (trim t) \<longleftrightarrow> (\<exists>c \<in> set t. \<not> isWhiteSpace c)"
proof -
  have "truthy (trim t) \<longleftrightarrow> (\<exists>c \<in> set (rev (dropWhile isWhiteSpace t)). \<not> isWhiteSpace c)"
    unfolding truthy_def trim_def by (simp only: rev_is_Nil_conv dropWhile_empty) blast
  also have "\<dots> \<longleftrightarrow> (\<exists>c \<in> set t. \<not> isWhiteSpace c)"
    by (simp only: set_rev dropWhile_has)
  finally show ?thesis .
qed

lemma handleMessage_no_toolCall:
  "toolCall m = None \<Longrightarrow> handleMessage m now s = handleMessage_content m now s"
  by (simp add: handleMessage_def)

subsection \<open>Overlapping calls\<close>

lemma start_not_before_clock: "now \<le> last (start_times (playAudio now d s))"
  by (simp add: start_times_playAudio)

lemma separated_snoc:
  "separated (xs @ [(src, t, d)]) \<longleftrightarrow>
     separated xs \<and> list_all (\<lambda>(src', t', d'). t' + d' \<le> t) xs"
  by (induction xs rule: separated.induct) auto

lemma playback_step_invariant:
  assumes "nonneg_duration e" "separated (started (effects s))" "ends_before_cursor s"
  shows "separated (started (effects (playback_step s e)))
         \<and> ends_before_cursor (playback_step s e)"
proof (cases e)
  case (Enqueued now)
  have "t + d \<le> nextStartTime s \<Longrightarrow> t + d \<le> max (nextStartTime s) now" for t d :: real
    by simp
  then have "list_all (\<lambda>(src, t, d). t + d \<le> max (nextStartTime s) now) (started (effects s))"
    using assms(3) unfolding ends_before_cursor_def list_all_iff by fastforce
  then show ?thesis
    using assms(2) Enqueued by (simp add: playAudio_begin_def ends_before_cursor_def)
next
  case (Decoded d)
  then have d: "0 \<le> d" using assms(1) by simp
  show ?thesis
  proof (cases "decoding s = 0")
    case True
    then show ?thesis using assms Decoded by (simp add: playAudio_resume_def)
  next
    case False
    have "t + d' \<le> nextStartTime s \<Longrightarrow> t + d' \<le> nextStartTime s + d" for t d' :: real
      using d by simp
    then have later: "list_all (\<lambda>(src, t, d'). t + d' \<le> nextStartTime s + d) (started (effects s))"
      using assms(3) unfolding ends_before_cursor_def list_all_iff by fastforce
    show ?thesis
      using assms(2,3) False Decoded later
      by (simp add: playAudio_resume_def emit_def Let_def started_append separated_snoc
          ends_before_cursor_def)
  qed
next
  case (Ended src)
  then show ?thesis using assms by (simp add: source_onended_def ends_before_cursor_def)
qed

text \<open>
  Without an interruption no two sources overlap, however the calls of \<open>playAudio\<close> and
  their decoders interleave, provided buffer durations are not negative.
\<close>

lemma playback_never_overlaps:
  "list_all nonneg_duration es \<Longrightarrow> separated (started (effects s)) \<Longrightarrow> ends_before_cursor s \<Longrightarrow>
   separated (started (effects (foldl playback_step s es)))
   \<and> ends_before_cursor (foldl playback_step s es)"
proof (induction es arbitrary: s)
  case Nil
  then show ?case by simp
next
  case (Cons e es)
  from Cons.prems have "nonneg_duration e" and rest: "list_all nonneg_duration es" by simp_all
  with Cons.prems have
    "separated (started (effects (playback_step s e)))" "ends_before_cursor (playback_step s e)"
    using playback_step_invariant by blast+
  from Cons.IH[OF rest this] show ?case by simp
qed

subsection \<open>Before the first conversation\<close>

text \<open>
  \<open>never_started\<close> holds after construction, and every handler keeps it except the
  segment of \<open>startConversation\<close> that runs when the microphone has been granted.
\<close>

lemma never_started_new: "never_started (initClient now new_app)"
  by (simp add: never_started_def initClient_def new_app_def initSession_def updateStatus_def
      emit_def Let_def)

lemma never_started_content:
  "never_started s \<Longrightarrow> never_started (state_of (handleMessage_content m now s))"
  by (simp add: never_started_def handleMessage_content_def playAudio_begin_def Let_def
      split: option.splits)

lemma never_started_toolCalls:
  "never_started s \<Longrightarrow> never_started (state_of (toolCalls fcs m now s))"
proof (induction fcs arbitrary: s)
  case Nil
  then show ?case by (simp add: never_started_content)
next
  case (Cons fc fcs)
  have sent: "never_started (sendToolResponse k fc (emit e s))" for k e
    using Cons.prems by (simp add: never_started_def sendToolResponse_def emit_def)
  show ?case
    using Cons.prems Cons.IH[OF Cons.prems] Cons.IH[OF sent]
    by (auto simp: Let_def never_started_def emit_def split: promise.splits option.splits)
qed

lemma never_started_onmessage: "never_started s \<Longrightarrow> never_started (onmessage k m now s)"
  by (simp add: onmessage_def handleMessage_def never_started_content never_started_toolCalls
      split: option.splits tool_call.splits)

lemma never_started_session_callbacks:
  "never_started s \<Longrightarrow> never_started (onopen k s)"
  "never_started s \<Longrightarrow> never_started (onerror k msg s)"
  "never_started s \<Longrightarrow> never_started (onclose k s)"
proof -
  assume idle: "never_started s"
  show "never_started (onopen k s)"
    using idle by (simp add: never_started_def onopen_def updateStatus_def Let_def)
  have "never_started (updateError (''Connection Error: '' @ msg) (s\<lparr>sessionState := Error\<rparr>))"
    using idle by (simp add: never_started_def updateError_def)
  then show "never_started (onerror k msg s)"
    by (simp add: onerror_def Let_def stopConversation_noop)
  have "never_started (updateStatus ''Connection closed.'' (s\<lparr>sessionState := Idle\<rparr>))"
    using idle by (simp add: never_started_def updateStatus_def)
  then show "never_started (onclose k s)"
    by (simp add: onclose_def Let_def stopConversation_noop)
qed

lemma never_started_playback:
  "never_started s \<Longrightarrow> never_started (playAudio_resume d s)"
  "never_started s \<Longrightarrow> never_started (playAudio_abort s)"
  "never_started s \<Longrightarrow> never_started (source_onended src s)"
  by (simp_all add: never_started_def playAudio_resume_def playAudio_abort_def
      source_onended_def emit_def Let_def)

lemma never_started_then_send: "never_started s \<Longrightarrow> never_started (then_send p s)"
  by (simp add: never_started_def then_send_def emit_def Let_def split: promise.splits)

lemma never_started_capture:
  "never_started s \<Longrightarrow> never_started (onaudioprocess pcmData s)"
  "never_started s \<Longrightarrow> never_started (frameTick blob s)"
  "never_started s \<Longrightarrow> never_started (startCamera outcome s)"
  "never_started s \<Longrightarrow> never_started (stopCamera s)"
  "never_started s \<Longrightarrow> never_started (startConversation_request s)"
  "never_started s \<Longrightarrow> never_started (startConversation (Inl msg) s)"
proof -
  assume idle: "never_started s"
  show "never_started (onaudioprocess pcmData s)"
    using idle by (simp add: onaudioprocess_def never_started_then_send)
  show "never_started (frameTick blob s)"
    using idle by (simp add: frameTick_def never_started_then_send split: option.splits)
  show "never_started (startCamera outcome s)"
    using idle
    by (simp add: never_started_def startCamera_def updateError_def emit_def Let_def
        split: camera_outcome.splits)
  show "never_started (stopCamera s)"
    using idle by (simp add: never_started_def stopCamera_frame)
  show request: "never_started (startConversation_request s)"
    using idle by (simp add: never_started_def startConversation_request_def updateStatus_def emit_def)
  have "never_started (updateError (''Microphone Error: '' @ msg) (startConversation_request s))"
    using request by (simp add: never_started_def updateError_def)
  then show "never_started (startConversation (Inl msg) s)"
    using idle by (simp add: startConversation_def startConversation_denied_def stopConversation_noop)
qed

lemma never_started_recording:
  "never_started s \<Longrightarrow> never_started (startRecording outcome s)"
  "never_started s \<Longrightarrow> never_started (stopRecording s)"
  "never_started s \<Longrightarrow> never_started (stopConversation s)"
proof -
  assume idle: "never_started s"
  show "never_started (startRecording outcome s)"
    using idle by (simp add: never_started_def startRecording_def updateError_def)
  show "never_started (stopRecording s)"
    using idle by (simp add: never_started_def stopRecording_noop)
  show "never_started (stopConversation s)"
    using idle by (simp add: stopConversation_noop)
qed

lemma never_started_resume: "never_started s \<Longrightarrow> never_started (applySettings_resume k s)"
  by (simp add: never_started_def applySettings_resume_def initSession_def updateStatus_def
      emit_def Let_def)

lemma never_started_apply:
  "never_started s \<Longrightarrow> never_started (applySettingsAndResetSession confirmed s)"
proof -
  assume idle: "never_started s"
  then have stopped: "never_started (stopCamera (stopConversation s))"
    by (simp add: stopConversation_noop never_started_capture)
  then have "never_started ((stopCamera (stopConversation s))\<lparr>reactions := rs\<rparr>)" for rs
    by (simp add: never_started_def)
  with idle stopped show ?thesis
    by (simp add: applySettingsAndResetSession_def Let_def never_started_resume
        split: promise.splits)
qed

lemma never_started_run_reaction:
  "never_started s \<Longrightarrow> never_started (run_reaction now k s r)"
proof (cases r)
  case (SendMedia p)
  assume "never_started s"
  then show ?thesis using SendMedia by (simp add: run_reaction_def never_started_def emit_def)
next
  case (ToolResponse fc fcs m)
  assume "never_started s"
  then have "never_started (sendToolResponse k fc s)"
    by (simp add: never_started_def sendToolResponse_def emit_def)
  then show ?thesis using ToolResponse by (simp add: run_reaction_def never_started_toolCalls)
next
  case ApplySettings
  assume "never_started s"
  then show ?thesis using ApplySettings by (simp add: run_reaction_def never_started_resume)
qed

lemma never_started_reactions:
  "never_started s \<Longrightarrow> never_started (foldl (run_reaction now k) s rs)"
  by (induction rs arbitrary: s) (simp_all add: never_started_run_reaction)

lemma never_started_settled:
  "never_started s \<Longrightarrow> never_started (initSession_connected k now s)"
  "never_started s \<Longrightarrow> never_started (initSession_failed k msg s)"
proof -
  assume idle: "never_started s"
  then have "never_started (s\<lparr>promises := ps, reactions := rs\<rparr>)" for ps rs
    by (simp add: never_started_def)
  then show "never_started (initSession_connected k now s)"
    using idle by (simp add: initSession_connected_def Let_def never_started_reactions)
  show "never_started (initSession_failed k msg s)"
    using idle by (simp add: never_started_def initSession_failed_def updateError_def Let_def)
qed

subsection \<open>Applying settings, after the await\<close>

lemma applySettings_resume_fields:
  "isConversing (applySettings_resume k s) = isConversing s"
  "isCameraOn (applySettings_resume k s) = isCameraOn s"
  "scriptProcessorNode (applySettings_resume k s) = scriptProcessorNode s"
  "sourceNode (applySettings_resume k s) = sourceNode s"
  "mediaStream (applySettings_resume k s) = mediaStream s"
  "videoStream (applySettings_resume k s) = videoStream s"
  "frameIntervalRef (applySettings_resume k s) = frameIntervalRef s"
  "transcriptionHistory (applySettings_resume k s) = []"
  "currentVoice (applySettings_resume k s) = pendingVoice s"
  "currentSystemInstruction (applySettings_resume k s) = pendingSystemInstruction s"
  "sessionState (applySettings_resume k s) = Connecting"
  "sessionPromise (applySettings_resume k s) = promiseCount s"
  "n = promiseCount s \<Longrightarrow> promises (applySettings_resume k s) n = Pending"
  "effects (applySettings_resume k s) =
     effects s @ [SessionClose k, Connect (promiseCount s) (pendingVoice s) (pendingSystemInstruction s)]"
  by (simp_all add: applySettings_resume_def initSession_def updateStatus_def emit_def Let_def)

lemma apply_fulfilled:
  "isConversing s \<Longrightarrow> promises s (sessionPromise s) = Fulfilled \<Longrightarrow>
   applySettingsAndResetSession True s =
     applySettings_resume (sessionPromise s) (stopCamera (stopConversation s))"
  by (simp add: applySettingsAndResetSession_def Let_def stopCamera_frame stopConversation_frame)

subsection \<open>Segments and whole calls\<close>

lemma startCamera_segments:
  "startCamera (CameraDenied msg) s =
     (if isCameraOn s then s else startCamera_catch msg (startCamera_request s))"
  "startCamera (PlayFailed v msg) s =
     (if isCameraOn s then s
      else startCamera_catch msg (startCamera_stream v (startCamera_request s)))"
  "startCamera (CameraStarted v t) s =
     (if isCameraOn s then s
      else startCamera_playing t (startCamera_stream v (startCamera_request s)))"
  by (simp_all add: startCamera_def startCamera_request_def startCamera_stream_def
      startCamera_playing_def startCamera_catch_def updateError_def emit_def Let_def)

lemma startRecording_segments:
  "startRecording (Inl msg) s =
     (if isConversing s then startRecording_catch msg (startRecording_request s)
      else startRecording_request s)"
  "startRecording (Inr scr) s =
     (if isConversing s then startRecording_granted scr (startRecording_request s)
      else startRecording_request s)"
  by (simp_all add: startRecording_def startRecording_request_def startRecording_granted_def
      Let_def)

subsection \<open>Only the microphone grant turns the conversation flag on\<close>

lemma isConversing_content:
  "isConversing (state_of (handleMessage_content m now s)) = isConversing s"
  by (simp add: handleMessage_content_def playAudio_begin_def Let_def split: option.splits)

lemma isConversing_toolCalls:
  "isConversing (state_of (toolCalls fcs m now s)) = isConversing s"
proof (induction fcs arbitrary: s)
  case Nil
  show ?case by (simp add: isConversing_content)
next
  case (Cons fc fcs)
  have "isConversing (state_of (toolCalls fcs m now (sendToolResponse k fc (emit e s))))
          = isConversing s" for k e
    by (simp add: Cons.IH sendToolResponse_def emit_def)
  then show ?case
    by (simp add: Cons.IH Let_def emit_def split: promise.splits option.splits)
qed

lemma isConversing_onmessage: "isConversing (onmessage k m now s) = isConversing s"
  by (simp add: onmessage_def handleMessage_def isConversing_content isConversing_toolCalls
      split: option.splits tool_call.splits)

lemma isConversing_then_send: "isConversing (then_send p s) = isConversing s"
  by (simp add: then_send_def emit_def Let_def split: promise.splits)

lemma isConversing_run_reaction: "isConversing (run_reaction now k s r) = isConversing s"
  by (cases r)
    (simp_all add: run_reaction_def emit_def sendToolResponse_def isConversing_toolCalls
      applySettings_resume_fields)

lemma isConversing_reactions: "isConversing (foldl (run_reaction now k) s rs) = isConversing s"
  by (induction rs arbitrary: s) (simp_all add: isConversing_run_reaction)

lemma isConversing_settled:
  "isConversing (initSession_connected k now s) = isConversing s"
  "isConversing (initSession_failed k msg s) = isConversing s"
  by (simp_all add: initSession_connected_def initSession_failed_def updateError_def Let_def
      isConversing_reactions)

lemma not_conversing_apply:
  "\<not> isConversing s \<Longrightarrow> \<not> isConversing (applySettingsAndResetSession confirmed s)"
  by (simp add: applySettingsAndResetSession_def Let_def applySettings_resume_fields
      stopCamera_frame stopConversation_stops split: promise.splits)

text \<open>A block that arrives while the flag is off is dropped.\<close>

lemma block_dropped: "\<not> isConversing s \<Longrightarrow> onaudioprocess pcmData s = s"
  by (simp add: onaudioprocess_def)

lemma not_conversing_fire:
  assumes "\<not> is_grant e" "\<not> isConversing s"
  shows "\<not> isConversing (fire s e)"
proof (cases e)
  case (Errored k msg)
  then show ?thesis by (simp add: onerror_def Let_def stopConversation_stops)
next
  case (Closed k)
  then show ?thesis by (simp add: onclose_def Let_def stopConversation_stops)
next
  case (MicGranted m)
  then show ?thesis using assms(1) by simp
next
  case (MicDenied msg)
  then show ?thesis by (simp add: startConversation_denied_def stopConversation_stops)
next
  case ConversationStopped
  then show ?thesis by (simp add: stopConversation_stops)
next
  case (ApplyClicked confirmed)
  then show ?thesis using assms(2) by (simp add: not_conversing_apply)
next
  case (RecordingGranted scr)
  then show ?thesis
    using assms(2)
    by (simp add: startRecording_granted_def startRecording_catch_def updateError_def
        updateStatus_def emit_def Let_def split: option.splits)
qed (use assms(2) in \<open>simp_all add: onopen_def updateStatus_def Let_def isConversing_onmessage
      isConversing_settled playAudio_resume_def playAudio_abort_def source_onended_def emit_def
      block_dropped frameTick_def isConversing_then_send startConversation_request_def
      startCamera_request_def startCamera_stream_def startCamera_playing_def
      startCamera_catch_def startRecording_request_def startRecording_catch_def
      updateError_def stopCamera_frame handleVoiceChange_def
      handleSystemInstructionChange_def stopRecording_frame recorder_ondataavailable_def
      recorder_onstop_def split: option.splits\<close>)

lemma not_conversing_run:
  "list_all (\<lambda>e. \<not> is_grant e) es \<Longrightarrow> \<not> isConversing s \<Longrightarrow>
   \<not> isConversing (foldl fire s es)"
  by (induction es arbitrary: s) (simp_all add: not_conversing_fire)

text \<open>
  The same for \<open>never_started\<close>: it is kept by every event but the microphone grant
  and the later segment of \<open>startRecording\<close>, which runs only after a call that found a
  conversation active.
\<close>

lemma never_started_fire:
  assumes "\<not> sets_up e" "never_started s"
  shows "never_started (fire s e)"
proof (cases e)
  case (MicGranted m)
  then show ?thesis using assms(1) by simp
next
  case (RecordingGranted scr)
  then show ?thesis using assms(1) by simp
next
  case CameraRequested
  then show ?thesis
    using assms(2) by (simp add: never_started_def startCamera_request_def emit_def)
next
  case (CameraStream v)
  then show ?thesis using assms(2) by (simp add: never_started_def startCamera_stream_def)
next
  case (CameraPlaying t)
  then show ?thesis using assms(2) by (simp add: never_started_def startCamera_playing_def)
next
  case (CameraFailed msg)
  then show ?thesis
    using assms(2) by (simp add: never_started_def startCamera_catch_def updateError_def)
next
  case RecordingRequested
  then show ?thesis
    using assms(2) by (simp add: never_started_def startRecording_request_def updateError_def)
next
  case (RecordingDenied msg)
  then show ?thesis
    using assms(2) by (simp add: never_started_def startRecording_catch_def updateError_def)
next
  case (MicDenied msg)
  have "never_started (updateError (''Microphone Error: '' @ msg) s)"
    using assms(2) by (simp add: never_started_def updateError_def)
  then show ?thesis using MicDenied by (simp add: startConversation_denied_def stopConversation_noop)
next
  case (RecorderData chunk sz)
  then show ?thesis
    using assms(2) by (simp add: never_started_def recorder_ondataavailable_def)
next
  case RecorderEnded
  then show ?thesis using assms(2) by (simp add: never_started_def recorder_onstop_def emit_def)
next
  case (VoiceChanged v)
  then show ?thesis using assms(2) by (simp add: never_started_def handleVoiceChange_def)
next
  case (InstructionChanged v)
  then show ?thesis
    using assms(2) by (simp add: never_started_def handleSystemInstructionChange_def)
qed (use assms(2) in \<open>simp_all add: never_started_session_callbacks never_started_onmessage
      never_started_settled never_started_playback never_started_capture
      never_started_recording never_started_apply\<close>)

lemma never_started_run:
  "list_all (\<lambda>e. \<not> sets_up e) es \<Longrightarrow> never_started s \<Longrightarrow> never_started (foldl fire s es)"
  by (induction es arbitrary: s) (simp_all add: never_started_fire)

subsection \<open>Values of the concrete runs\<close>

lemma connected_app_fields:
  "sessionState connected_app = Connected"
  "isConversing connected_app = False"
  "sessionPromise connected_app = 0"
  "promises connected_app 0 = Fulfilled"
  "never_started connected_app"
  "\<not> startConversation_guard connected_app"
  by (simp_all add: connected_app_def never_started_def handler_defs)

lemma conversing_app_fields:
  "isConversing conversing_app"
  "mediaStream conversing_app = Some 1"
  "sessionPromise conversing_app = 0"
  "promises conversing_app 0 = Fulfilled"
  "promiseCount conversing_app = 1"
  by (simp_all add: conversing_app_def connected_app_def handler_defs)

lemma puck_pending_fields:
  "isConversing puck_pending"
  "scriptProcessorNode puck_pending = Some ()"
  "sourceNode puck_pending = Some ()"
  "mediaStream puck_pending = Some 1"
  "promises puck_pending (sessionPromise puck_pending) = Fulfilled"
  "promises puck_pending 0 = Fulfilled"
  "pendingVoice puck_pending = ''Puck''"
  "currentVoice puck_pending = ''Zephyr''"
  "sessionPromise puck_pending = 0"
  "promiseCount puck_pending = 1"
  by (simp_all add: puck_pending_def conversing_app_def connected_app_def handler_defs)

section \<open>Playback scheduler: claims C1 to C3\<close>

text \<open>
  Claim C1, as amended. For chunks enqueued one after the other with no interruption
  in between, chunk \<open>n + 1\<close> starts at the later of two times: the end of chunk \<open>n\<close>
  (its start plus its duration) and the output clock read when chunk \<open>n + 1\<close> is
  enqueued. So it never starts before chunk \<open>n\<close> ends, and it starts exactly at the
  end of chunk \<open>n\<close> whenever it is enqueued no later than that end.
\<close>

theorem chunk_start_follows_previous:
  "Suc n < length cs \<Longrightarrow>
   chunk_starts cs s ! Suc n = max (chunk_starts cs s ! n + snd (cs ! n)) (fst (cs ! Suc n))
   \<and> chunk_starts cs s ! n + snd (cs ! n) \<le> chunk_starts cs s ! Suc n
   \<and> (fst (cs ! Suc n) \<le> chunk_starts cs s ! n + snd (cs ! n) \<longrightarrow>
        chunk_starts cs s ! Suc n = chunk_starts cs s ! n + snd (cs ! n))"
  by (simp add: chunk_starts_schedule schedule_step)

theorem chunk_start_follows_previous_witness:
  "Suc 0 < length [(10, 1 / 2), (10 :: real, 1 / 2 :: real)]
   \<and> fst ([(10, 1 / 2), (10 :: real, 1 / 2 :: real)] ! Suc 0)
       \<le> chunk_starts [(10, 1 / 2), (10, 1 / 2)] (initClient 10 new_app) ! 0
           + snd ([(10, 1 / 2), (10 :: real, 1 / 2 :: real)] ! 0)
   \<and> chunk_starts [(10, 1 / 2), (10, 1 / 2)] (initClient 10 new_app) ! Suc 0
       = chunk_starts [(10, 1 / 2), (10, 1 / 2)] (initClient 10 new_app) ! 0
           + snd ([(10, 1 / 2), (10 :: real, 1 / 2 :: real)] ! 0)"
  using chunk_start_follows_previous [of 0 "[(10, 1 / 2), (10, 1 / 2)]" "initClient 10 new_app"]
  by (simp add: chunk_starts_schedule nextStartTime_new)

text \<open>
  The claim as it was stated fails when a chunk arrives after the one before it has
  ended: with the cursor at 10, a chunk of half a second enqueued at clock time 10 and
  the next enqueued at clock time 12, the second starts at 12, not at 10.5.
\<close>

theorem chunk_start_counterexample:
  "chunk_starts [(10, 1 / 2), (12, 1 / 2)] (initClient 10 new_app) ! Suc 0
     \<noteq> chunk_starts [(10, 1 / 2), (12, 1 / 2)] (initClient 10 new_app) ! 0
         + snd ([(10, 1 / 2), (12 :: real, 1 / 2 :: real)] ! 0)"
  by (simp add: chunk_starts_schedule nextStartTime_new)

text \<open>
  Claim C2 fails on the code. An interruption has been handled at clock time 40: the
  cursor is 0, the set is empty, no call is suspended. The next chunk is enqueued at
  clock time 50 and \<open>playAudio\<close> clamps the cursor to 50, but the message that brings
  the chunk carries the interruption flag too, so the same turn resets the cursor to 0
  while the call is suspended in the decoder. When the decoder is done the chunk is
  started at 0, fifty seconds before the clock. A chunk whose message does not carry
  the flag starts at the clock time of its call, as the claim says.
\<close>

theorem next_chunk_after_interrupt_starts_in_past:
  "nextStartTime after_interruption = 0
   \<and> sources after_interruption = []
   \<and> decoding after_interruption = 0
   \<and> decoding next_chunk_interrupted = 1
   \<and> nextStartTime next_chunk_interrupted = 0
   \<and> effects (playAudio_resume (1 / 2) next_chunk_interrupted)
       = effects after_interruption @ [SourceStart 1 0 (1 / 2)]
   \<and> effects (playAudio_resume (1 / 2) (onmessage 0 audio_only 50 after_interruption))
       = effects after_interruption @ [SourceStart 1 50 (1 / 2)]"
  by (simp add: next_chunk_interrupted_def after_interruption_def connected_app_def
      audio_only_def audio_interrupted_def interrupted_only_def handler_defs)

text \<open>
  Claim C3 fails on the code. A chunk is playing (source 0, started at 10) when a
  message with audio and the interruption flag is handled at clock time 10.25:
  \<open>playAudio\<close> clamps the cursor and is suspended in the decoder, and the same turn
  stops source 0, empties the set and resets the cursor. When the decoder is done the
  suspended call goes on: it starts its source at cursor value 0, in the past of the
  clock, and puts it into the in-flight set.
\<close>

theorem interrupt_race_starts_stale_source:
  "decoding interrupted_while_decoding = 1
   \<and> sources interrupted_while_decoding = []
   \<and> nextStartTime interrupted_while_decoding = 0
   \<and> started (effects interrupted_while_decoding) = [(0, 10, 1 / 2)]
   \<and> last (effects interrupted_while_decoding) = SourceStop 0
   \<and> sources (playAudio_resume (1 / 2) interrupted_while_decoding) = [1]
   \<and> effects (playAudio_resume (1 / 2) interrupted_while_decoding)
       = effects interrupted_while_decoding @ [SourceStart 1 0 (1 / 2)]"
  by (simp add: interrupted_while_decoding_def connected_app_def audio_only_def
      audio_interrupted_def handler_defs)

section \<open>Session teardown and capture: claims C4 and C5\<close>

text \<open>
  Claim C4 fails on the code. The camera is on when the session closes: \<open>onclose\<close>
  calls \<open>stopConversation\<close> only, so the camera flag, its stream and its timer are as
  before, no timer has been cleared, and the next tick of the timer still submits a
  frame. \<open>applySettingsAndResetSession\<close> does call \<open>stopCamera\<close> next to
  \<open>stopConversation\<close>.
\<close>

theorem camera_survives_session_close:
  "sessionState closed_with_camera = Idle
   \<and> isCameraOn closed_with_camera
   \<and> videoStream closed_with_camera = Some 7
   \<and> frameIntervalRef closed_with_camera = Some 3
   \<and> ClearInterval 3 \<notin> set (effects closed_with_camera)
   \<and> StopTracks 7 \<notin> set (effects closed_with_camera)
   \<and> effects (frameTick (Some ''frame'') closed_with_camera)
       = effects closed_with_camera @ [SendRealtimeInput 0 (JpegFrame ''frame'')]"
  by (simp add: closed_with_camera_def connected_app_def handler_defs)

text \<open>
  Claim C5, as amended. Once \<open>stopConversation\<close> has completed the conversation flag is
  off, and it stays off through every later turn, whatever the events are, until the
  microphone is granted to a call of \<open>startConversation\<close> (one made after the stop or
  one that was already waiting for the microphone). All that time a block the processor
  delivers is dropped: the handler returns the state as it is, so nothing is submitted
  and nothing is queued for it. The flag is tested when the block is captured;
  \<open>stopConversation\<close> does not touch the submissions that already wait for the session
  promise.
\<close>

theorem block_after_stop_dropped:
  "list_all (\<lambda>e. \<not> is_grant e) es \<Longrightarrow>
   isConversing (foldl fire (stopConversation s) es) = False
   \<and> onaudioprocess pcmData (foldl fire (stopConversation s) es)
       = foldl fire (stopConversation s) es
   \<and> reactions (stopConversation s) = reactions s"
  using not_conversing_run [of es "stopConversation s"]
  by (simp add: stopConversation_stops stopConversation_frame block_dropped)

theorem block_after_stop_dropped_witness:
  "list_all (\<lambda>e. \<not> is_grant e)
     [Message 0 audio_only 5, Closed 0, MicRequested, AudioBlock [1 / 2], RecordingGranted 9]
   \<and> onaudioprocess [1 / 4]
        (foldl fire (stopConversation (startRecording_request conversing_app))
           [Message 0 audio_only 5, Closed 0, MicRequested, AudioBlock [1 / 2],
            RecordingGranted 9])
       = foldl fire (stopConversation (startRecording_request conversing_app))
           [Message 0 audio_only 5, Closed 0, MicRequested, AudioBlock [1 / 2],
            RecordingGranted 9]"
  using block_after_stop_dropped
    [of "[Message 0 audio_only 5, Closed 0, MicRequested, AudioBlock [1 / 2], RecordingGranted 9]"
        "startRecording_request conversing_app" "[1 / 4]"]
  by simp

text \<open>
  A grant that arrives after the stop starts the capture again, also when the
  conversation was requested before the stop: the block captured then is submitted.
\<close>

lemma grant_after_stop_resumes_capture:
  "isConversing granted_after_close
   \<and> last (effects granted_after_close) = SendRealtimeInput 0 (AudioBlob [1 / 4])"
  by (simp add: granted_after_close_def connected_app_def handler_defs)

text \<open>
  The claim as it was stated fails for a block in flight: here a block waits for the
  session promise 1 when the conversation is stopped, and it is submitted to session 1
  when that promise is fulfilled, after the stop.
\<close>

theorem inflight_block_sent_after_stop:
  "isConversing stopped_before_connect = False
   \<and> reactions stopped_before_connect = [(1, SendMedia (AudioBlob [1 / 4]))]
   \<and> SendRealtimeInput 1 (AudioBlob [1 / 4]) \<notin> set (effects stopped_before_connect)
   \<and> effects (initSession_connected 1 0 stopped_before_connect)
       = effects stopped_before_connect @ [SendRealtimeInput 1 (AudioBlob [1 / 4])]"
  by (simp add: stopped_before_connect_def connected_app_def handler_defs)

section \<open>Transcription: claim C6\<close>

text \<open>
  Claim C6, as amended. A message with the turn-completion flag whose model turn, if
  it has one, has its parts is handled to the end, and then: each accumulator (with the
  partial transcription of the same message already added) is flushed when it is not
  empty after \<open>trim\<close>, that is when it holds a character that is not white space: the
  user entry first, the assistant entry after it, none for an accumulator that is empty
  or blank. Both accumulators and both displayed partial texts are cleared in every
  such case. Nothing is said here of a message whose model turn has no parts.
\<close>

theorem turnComplete_flush:
  "turnComplete m \<Longrightarrow> modelTurn m \<noteq> Some NoParts \<Longrightarrow>
   handleMessage_content m now s = Returned (state_of (handleMessage_content m now s))
   \<and> transcriptionHistory (state_of (handleMessage_content m now s)) =
       transcriptionHistory s
       @ flushed You (appended (inputTranscription m) (priv_currentInput s))
       @ flushed Gemini (appended (outputTranscription m) (priv_currentOutput s))
   \<and> priv_currentInput (state_of (handleMessage_content m now s)) = []
   \<and> priv_currentOutput (state_of (handleMessage_content m now s)) = []
   \<and> currentUserTranscription (state_of (handleMessage_content m now s)) = []
   \<and> currentModelTranscription (state_of (handleMessage_content m now s)) = []"
  by (simp add: handleMessage_content_def playAudio_begin_def flushed_def appended_def Let_def
      split: option.splits)

theorem turnComplete_flush_witness:
  "turnComplete late_turn \<and> modelTurn late_turn \<noteq> Some NoParts
   \<and> transcriptionHistory (state_of (handleMessage_content late_turn 0 connected_app))
       = [\<lparr>speaker = You, entryText = [0x68, 0x69]\<rparr>]
   \<and> priv_currentInput (state_of (handleMessage_content late_turn 0 connected_app)) = []"
  using turnComplete_flush [of late_turn 0 connected_app]
  by (simp add: late_turn_def connected_app_def flushed_def appended_def handler_defs)

text \<open>
  For a turn completion whose model turn has no parts the method throws where it reads
  the audio: no entry is made and the accumulators keep their text.
\<close>

lemma turn_without_parts_throws:
  "handleMessage turn_without_parts now s = Threw s
   \<and> onmessage k turn_without_parts now s = s"
  by (simp add: turn_without_parts_def onmessage_def handleMessage_def handleMessage_content_def)

text \<open>The guard of the flush, without \<open>trim\<close>.\<close>

lemma flushed_nonblank:
  "flushed who acc =
     (if \<exists>c \<in> set acc. \<not> isWhiteSpace c then [\<lparr>speaker = who, entryText = acc\<rparr>] else [])"
  unfolding flushed_def truthy_trim by simp

text \<open>
  The claim as it was stated fails for an accumulator that is not empty but blank: the
  user accumulator holds one space and the assistant accumulator is empty when the
  turn completes, and no entry is appended.
\<close>

theorem blank_user_text_not_appended:
  "priv_currentInput (onmessage 0 blank_input 0 connected_app) = [0x20]
   \<and> priv_currentOutput (onmessage 0 blank_input 0 connected_app) = []
   \<and> transcriptionHistory (onmessage 0 turn_complete 0 (onmessage 0 blank_input 0 connected_app))
       = transcriptionHistory (onmessage 0 blank_input 0 connected_app)"
  by (simp add: blank_input_def turn_complete_def connected_app_def handler_defs)

section \<open>Settings: claim C7\<close>

text \<open>
  Claim C7, as amended. When new settings are applied while a conversation is active,
  the user confirms and the session promise is fulfilled, then in one turn and in this
  order: the recording and the capture pipeline are shut down (the processor and the
  source node are disconnected, the tracks of the microphone stream are stopped, the
  conversation flag and the handles are cleared), the frame pipeline is shut down if
  the camera flag is on, the old session is closed, the transcription history is
  cleared, the pending voice and instruction become the current ones, and a new
  session is requested with them, whose promise becomes the session promise.
\<close>

theorem apply_settings_resets_session:
  "isConversing s \<Longrightarrow> promises s (sessionPromise s) = Fulfilled \<Longrightarrow>
   effects (applySettingsAndResetSession True s) =
     effects s @ recording_stop_calls s @ capture_stop_calls s @ camera_stop_calls s
     @ [SessionClose (sessionPromise s),
        Connect (promiseCount s) (pendingVoice s) (pendingSystemInstruction s)]
   \<and> (scriptProcessorNode s \<noteq> None \<longrightarrow>
        DisconnectProcessor \<in> set (effects (applySettingsAndResetSession True s)))
   \<and> (sourceNode s \<noteq> None \<longrightarrow>
        DisconnectSource \<in> set (effects (applySettingsAndResetSession True s)))
   \<and> (mediaStream s = Some mic \<longrightarrow>
        StopTracks mic \<in> set (effects (applySettingsAndResetSession True s)))
   \<and> isConversing (applySettingsAndResetSession True s) = False
   \<and> scriptProcessorNode (applySettingsAndResetSession True s) = None
   \<and> sourceNode (applySettingsAndResetSession True s) = None
   \<and> mediaStream (applySettingsAndResetSession True s) = None
   \<and> isCameraOn (applySettingsAndResetSession True s) = False
   \<and> transcriptionHistory (applySettingsAndResetSession True s) = []
   \<and> currentVoice (applySettingsAndResetSession True s) = pendingVoice s
   \<and> currentSystemInstruction (applySettingsAndResetSession True s) = pendingSystemInstruction s
   \<and> sessionState (applySettingsAndResetSession True s) = Connecting
   \<and> sessionPromise (applySettingsAndResetSession True s) = promiseCount s
   \<and> promises (applySettingsAndResetSession True s) (promiseCount s) = Pending"
proof -
  assume active: "isConversing s" and fulfilled: "promises s (sessionPromise s) = Fulfilled"
  have calls: "effects (applySettingsAndResetSession True s) =
      effects s @ recording_stop_calls s @ capture_stop_calls s @ camera_stop_calls s
      @ [SessionClose (sessionPromise s),
         Connect (promiseCount s) (pendingVoice s) (pendingSystemInstruction s)]"
    by (simp add: apply_fulfilled [OF active fulfilled] applySettings_resume_fields
        effects_stopCamera effects_stopConversation camera_stop_calls_stopConversation
        stopCamera_frame stopConversation_frame)
  have fields:
    "isConversing (applySettingsAndResetSession True s) = False
     \<and> scriptProcessorNode (applySettingsAndResetSession True s) = None
     \<and> sourceNode (applySettingsAndResetSession True s) = None
     \<and> mediaStream (applySettingsAndResetSession True s) = None
     \<and> isCameraOn (applySettingsAndResetSession True s) = False
     \<and> transcriptionHistory (applySettingsAndResetSession True s) = []
     \<and> currentVoice (applySettingsAndResetSession True s) = pendingVoice s
     \<and> currentSystemInstruction (applySettingsAndResetSession True s) = pendingSystemInstruction s
     \<and> sessionState (applySettingsAndResetSession True s) = Connecting
     \<and> sessionPromise (applySettingsAndResetSession True s) = promiseCount s
     \<and> promises (applySettingsAndResetSession True s) (promiseCount s) = Pending"
    by (simp add: apply_fulfilled [OF active fulfilled] applySettings_resume_fields
        stopCamera_frame stopCamera_stops stopConversation_frame stopConversation_stops)
  have stops:
    "(scriptProcessorNode s \<noteq> None \<longrightarrow> DisconnectProcessor \<in> set (capture_stop_calls s))
     \<and> (sourceNode s \<noteq> None \<longrightarrow> DisconnectSource \<in> set (capture_stop_calls s))
     \<and> (mediaStream s = Some mic \<longrightarrow> StopTracks mic \<in> set (capture_stop_calls s))"
    by (auto simp: capture_stop_calls_def)
  from calls fields stops show ?thesis by simp
qed

theorem apply_settings_resets_session_witness:
  "isConversing puck_pending
   \<and> promises puck_pending (sessionPromise puck_pending) = Fulfilled
   \<and> scriptProcessorNode puck_pending \<noteq> None \<and> sourceNode puck_pending \<noteq> None
   \<and> mediaStream puck_pending = Some 1
   \<and> currentVoice puck_pending = ''Zephyr''
   \<and> DisconnectProcessor \<in> set (effects (applySettingsAndResetSession True puck_pending))
   \<and> DisconnectSource \<in> set (effects (applySettingsAndResetSession True puck_pending))
   \<and> StopTracks 1 \<in> set (effects (applySettingsAndResetSession True puck_pending))
   \<and> isConversing (applySettingsAndResetSession True puck_pending) = False
   \<and> transcriptionHistory (applySettingsAndResetSession True puck_pending) = []
   \<and> currentVoice (applySettingsAndResetSession True puck_pending) = ''Puck''
   \<and> sessionPromise (applySettingsAndResetSession True puck_pending) = 1"
  using apply_settings_resets_session [of puck_pending 1]
  by (simp add: puck_pending_fields capture_stop_calls_def)

text \<open>The calls of that run, in full.\<close>

lemma puck_applied_calls:
  "effects puck_applied =
     [Connect 0 ''Zephyr'' ''You are a helpful and creative AI assistant.'',
      GetUserMediaAudio, DisconnectProcessor, DisconnectSource, StopTracks 1, SessionClose 0,
      Connect 1 ''Puck'' ''You are a helpful and creative AI assistant.'']"
  by (simp add: puck_applied_def puck_pending_def conversing_app_def connected_app_def
      handler_defs)

text \<open>
  The claim as it was stated fails in three ways. First, \<open>onmessage\<close> does not look at
  the session a message comes from: after the settings have been applied the session
  promise is promise 1 and the history is empty, and a turn completion of the old
  session 0 that arrives then puts its entry into that history. Second, when the user
  declines the confirmation nothing is done at all. Third, when the session promise
  has been rejected (here the conversation started on a connection that then failed)
  the capture is stopped but the \<open>await\<close> throws: the new voice is not taken over and
  no session is requested.
\<close>

theorem apply_settings_counterexample:
  "sessionPromise puck_applied = 1
   \<and> SessionClose 0 \<in> set (effects puck_applied)
   \<and> transcriptionHistory puck_applied = []
   \<and> transcriptionHistory (onmessage 0 late_turn 0 puck_applied)
       = [\<lparr>speaker = You, entryText = [0x68, 0x69]\<rparr>]
   \<and> applySettingsAndResetSession False puck_pending = puck_pending
   \<and> isConversing conversing_on_rejected
   \<and> pendingVoice conversing_on_rejected = ''Kore''
   \<and> currentVoice (applySettingsAndResetSession True conversing_on_rejected) = ''Puck''
   \<and> promiseCount (applySettingsAndResetSession True conversing_on_rejected)
       = promiseCount conversing_on_rejected
   \<and> last (effects (applySettingsAndResetSession True conversing_on_rejected)) = StopTracks 1"
proof -
  have declined: "applySettingsAndResetSession False puck_pending = puck_pending"
    by (simp add: applySettingsAndResetSession_def puck_pending_fields)
  have late:
    "sessionPromise puck_applied = 1
     \<and> SessionClose 0 \<in> set (effects puck_applied)
     \<and> transcriptionHistory puck_applied = []
     \<and> transcriptionHistory (onmessage 0 late_turn 0 puck_applied)
         = [\<lparr>speaker = You, entryText = [0x68, 0x69]\<rparr>]"
    by (simp add: puck_applied_def puck_pending_def conversing_app_def connected_app_def
        late_turn_def handler_defs)
  have rejected:
    "isConversing conversing_on_rejected
     \<and> pendingVoice conversing_on_rejected = ''Kore''
     \<and> currentVoice (applySettingsAndResetSession True conversing_on_rejected) = ''Puck''
     \<and> promiseCount (applySettingsAndResetSession True conversing_on_rejected)
         = promiseCount conversing_on_rejected
     \<and> last (effects (applySettingsAndResetSession True conversing_on_rejected)) = StopTracks 1"
    by (simp add: conversing_on_rejected_def conversing_on_pending_def connected_app_def
        handler_defs)
  from declined late rejected show ?thesis by simp
qed

section \<open>Recording and stopping: claims C8 and C9\<close>

text \<open>
  Claim C8. \<open>startRecording\<close> without an active conversation reports the precondition
  error on the error line and does nothing else: no screen capture is requested (the
  log of effects is as before), the recording flag, the recorder, the screen stream,
  the mixing context and the chunk buffer are as before.
\<close>

theorem startRecording_precondition:
  "\<not> isConversing s \<Longrightarrow>
   startRecording outcome s =
     s\<lparr>error := ''Start a conversation before recording.'', status := ''''\<rparr>
   \<and> effects (startRecording outcome s) = effects s
   \<and> isRecording (startRecording outcome s) = isRecording s
   \<and> mediaRecorder (startRecording outcome s) = mediaRecorder s
   \<and> screenStream (startRecording outcome s) = screenStream s
   \<and> recordingMixContext (startRecording outcome s) = recordingMixContext s
   \<and> recordedChunks (startRecording outcome s) = recordedChunks s"
  by (simp add: startRecording_def updateError_def)

theorem startRecording_precondition_witness:
  "\<not> isConversing connected_app
   \<and> error (startRecording (Inr 5) connected_app) = ''Start a conversation before recording.''
   \<and> effects (startRecording (Inr 5) connected_app) = effects connected_app
   \<and> isRecording (startRecording (Inr 5) connected_app) = isRecording connected_app
   \<and> screenStream (startRecording (Inr 5) connected_app) = screenStream connected_app"
  using startRecording_precondition [of connected_app "Inr 5"]
  by (simp add: connected_app_fields)

text \<open>
  Claim C9. As long as no conversation has been started (the capture and recording
  fields are as the constructor left them), \<open>stopConversation\<close> changes nothing at all:
  the state after the call is the state before it, the session state included. The
  function has no failing branch.
\<close>

theorem stopConversation_never_started:
  "never_started s \<Longrightarrow>
   stopConversation s = s \<and> sessionState (stopConversation s) = sessionState s"
  by (simp add: stopConversation_noop)

theorem stopConversation_never_started_witness:
  "never_started connected_app
   \<and> stopConversation connected_app = connected_app
   \<and> sessionState (stopConversation connected_app) = Connected"
  using stopConversation_never_started [of connected_app]
  by (simp add: connected_app_fields)

section \<open>Frequency analyser: claim C10\<close>

lemma length_getByteFrequencyData: "length (getByteFrequencyData fd arr) = length arr"
  by (simp add: getByteFrequencyData_def)

lemma update_keeps_object: "fst (update fd p) = fst p"
  by (cases p) (simp add: update_def split: option.splits)

lemma update_keeps_length: "data_length (update fd p) = data_length p"
  by (cases p)
    (simp add: update_def data_length_def data_def length_getByteFrequencyData
      split: option.splits)

lemma updates_keep_object: "fst (updates fds p) = fst p"
  unfolding updates_def
  by (induction fds arbitrary: p) (simp_all add: update_keeps_object)

lemma updates_keep_length: "data_length (updates fds p) = data_length p"
  unfolding updates_def
  by (induction fds arbitrary: p) (simp_all add: update_keeps_length)

lemma Analyser_new_length: "data_length (Analyser_new st) = Some 128"
  by (simp add: Analyser_new_def new_Uint8Array_def data_length_def data_def
      frequencyBinCount_def createAnalyser_def Let_def)

lemma Analyser_new_bufferLength: "bufferLength (fst (Analyser_new st)) = 128"
  by (simp add: Analyser_new_def new_Uint8Array_def frequencyBinCount_def
      createAnalyser_def Let_def)

text \<open>
  Claim C10. A newly constructed \<open>Analyser\<close> has a snapshot of 128 bins (half of the
  transform size 256 set in the constructor). After any sequence of \<open>update()\<close> calls,
  whatever frequency data the node delivers, the accessor \<open>data\<close> still returns the
  address it returned after construction, and the array at that address still has
  128 elements.
\<close>

theorem analyser_snapshot_fixed:
  "bufferLength (fst (Analyser_new st)) = 128
   \<and> data (fst (updates fds (Analyser_new st))) = data (fst (Analyser_new st))
   \<and> data_length (updates fds (Analyser_new st)) = Some 128"
  by (simp add: Analyser_new_bufferLength updates_keep_object updates_keep_length
      Analyser_new_length)

end
